theory Spec2Isabelle
  imports Complex_Main "HOL-Library.Char_ord" "HOL-Library.List_Lexorder"
begin

section \<open>The batch cleaning job (scripts/spark\_job.py)\<close>

text \<open>
  The job is a straight-line script over Spark DataFrames. A DataFrame is modelled as
  the list of its rows; Spark does not promise a row order after \<open>repartition\<close>, so
  the theorems below only speak about which rows are present.

  Every column of the schema is nullable: a cell is an \<open>option\<close>, \<open>None\<close> being
  SQL NULL. Column expressions follow Spark's three-valued logic: a comparison
  with NULL is NULL, \<open>&\<close> is Kleene conjunction, and \<open>filter\<close> keeps a row only when
  its condition is TRUE (not FALSE, not NULL).

  \<open>IntegerType\<close> cells are \<open>int\<close>. \<open>DoubleType\<close> cells are modelled as \<open>real\<close>:
  NaN, the infinities and rounding are outside the model. A timestamp is the number of
  microseconds since the epoch, as Spark stores it.
\<close>

subsection \<open>Column expressions\<close>

definition lit :: "'a \<Rightarrow> 'a option" where
  "lit v = Some v"

definition isNotNull :: "'a option \<Rightarrow> bool option" where
  "isNotNull c = Some (c \<noteq> None)"

text \<open>The operator \<open>&\<close> of two boolean columns.\<close>

fun col_and :: "bool option \<Rightarrow> bool option \<Rightarrow> bool option" where
  "col_and (Some False) b = Some False"
| "col_and a (Some False) = Some False"
| "col_and (Some True) (Some True) = Some True"
| "col_and a b = None"

text \<open>A binary operator that is NULL as soon as one operand is.\<close>

definition null_lift :: "('a \<Rightarrow> 'b \<Rightarrow> 'c) \<Rightarrow> 'a option \<Rightarrow> 'b option \<Rightarrow> 'c option" where
  "null_lift f a b =
     (case a of None \<Rightarrow> None
      | Some x \<Rightarrow> (case b of None \<Rightarrow> None | Some y \<Rightarrow> Some (f x y)))"

definition col_ge :: "'a::linorder option \<Rightarrow> 'a option \<Rightarrow> bool option" where
  "col_ge = null_lift (\<lambda>x y. y \<le> x)"

definition col_le :: "'a::linorder option \<Rightarrow> 'a option \<Rightarrow> bool option" where
  "col_le = null_lift (\<lambda>x y. x \<le> y)"

definition col_gt :: "'a::linorder option \<Rightarrow> 'a option \<Rightarrow> bool option" where
  "col_gt = null_lift (\<lambda>x y. y < x)"

definition col_lt :: "'a::linorder option \<Rightarrow> 'a option \<Rightarrow> bool option" where
  "col_lt = null_lift (\<lambda>x y. x < y)"

definition col_eq :: "'a option \<Rightarrow> 'a option \<Rightarrow> bool option" where
  "col_eq = null_lift (\<lambda>x y. x = y)"

definition col_sub :: "int option \<Rightarrow> int option \<Rightarrow> int option" where
  "col_sub = null_lift (\<lambda>x y. x - y)"

definition col_mul :: "real option \<Rightarrow> real option \<Rightarrow> real option" where
  "col_mul = null_lift (\<lambda>x y. x * y)"

text \<open>
  Spark's \<open>/\<close> is fractional division on doubles, and (with ANSI mode off, the
  default the script leaves untouched) a zero divisor gives NULL.
\<close>

definition col_div :: "real option \<Rightarrow> real option \<Rightarrow> real option" where
  "col_div a b =
     (case a of None \<Rightarrow> None
      | Some x \<Rightarrow> (case b of None \<Rightarrow> None
                  | Some y \<Rightarrow> if y = 0 then None else Some (x / y)))"

text \<open>The implicit cast of an integral column to double before \<open>/\<close>.\<close>

definition to_double :: "int option \<Rightarrow> real option" where
  "to_double c = map_option real_of_int c"

text \<open>\<open>isin\<close> with a list of non-null literals: NULL on a NULL cell.\<close>

definition isin :: "'a option \<Rightarrow> 'a list \<Rightarrow> bool option" where
  "isin c vs = map_option (\<lambda>v. v \<in> set vs) c"

text \<open>\<open>when(cond, v).otherwise(w)\<close>: \<open>v\<close> where the condition is TRUE, else \<open>w\<close>.\<close>

definition when_otherwise :: "bool option \<Rightarrow> 'a option \<Rightarrow> 'a option \<Rightarrow> 'a option" where
  "when_otherwise cond v w = (if cond = Some True then v else w)"

text \<open>\<open>df.filter(cond)\<close>.\<close>

definition df_filter :: "('r \<Rightarrow> bool option) \<Rightarrow> 'r list \<Rightarrow> 'r list" where
  "df_filter cond df = filter (\<lambda>r. cond r = Some True) df"

subsection \<open>Rows\<close>

text \<open>
  The 17 fields of the declared schema. The two timestamp columns hold raw strings when
  the file is read and timestamps after step 2, so the row type is parametric in them.
\<close>

record 't trip_row =
  VendorID :: "int option"
  tpep_pickup_datetime :: "'t option"
  tpep_dropoff_datetime :: "'t option"
  passenger_count :: "int option"
  trip_distance :: "real option"
  RatecodeID :: "int option"
  store_and_fwd_flag :: "string option"
  PULocationID :: "int option"
  DOLocationID :: "int option"
  payment_type :: "int option"
  fare_amount :: "real option"
  extra :: "real option"
  mta_tax :: "real option"
  tip_amount :: "real option"
  tolls_amount :: "real option"
  improvement_surcharge :: "real option"
  total_amount :: "real option"

type_synonym timestamp = int

record enriched_row = "timestamp trip_row" +
  trip_duration_minutes :: "real option"
  pickup_hour :: "int option"
  pickup_day_of_week :: "int option"
  pickup_month :: "int option"
  speed_mph :: "real option"
  tip_percentage :: "real option"

text \<open>
  The functions of \<open>pyspark.sql.functions\<close> whose result depends on the date format
  parser and on the session time zone are parameters of the model:
  \<open>to_timestamp\<close> with the fixed pattern \<open>MM/dd/yyyy hh:mm:ss a\<close> (NULL when the
  string does not parse), and the calendar fields of a timestamp.
\<close>

record sql_functions =
  to_timestamp :: "string \<Rightarrow> timestamp option"
  year :: "timestamp \<Rightarrow> int"
  hour :: "timestamp \<Rightarrow> int"
  dayofweek :: "timestamp \<Rightarrow> int"
  month :: "timestamp \<Rightarrow> int"

text \<open>\<open>unix_timestamp\<close> of a timestamp column: whole seconds since the epoch.\<close>

definition unix_timestamp :: "timestamp option \<Rightarrow> int option" where
  "unix_timestamp c = map_option (\<lambda>t. t div 1000000) c"

subsection \<open>The five steps of the script\<close>

text \<open>Step 1 (lines 64--77): the condition of \<open>df_filtered_early\<close>, conjunct by conjunct.\<close>

definition early_cond :: "string trip_row \<Rightarrow> bool option" where
  "early_cond r = foldl col_and (isNotNull (tpep_pickup_datetime r))
     [isNotNull (tpep_dropoff_datetime r),
      isNotNull (passenger_count r),
      isNotNull (trip_distance r),
      isNotNull (fare_amount r),
      col_ge (passenger_count r) (lit 1), col_le (passenger_count r) (lit 8),
      col_gt (trip_distance r) (lit 0), col_lt (trip_distance r) (lit 500),
      col_gt (fare_amount r) (lit 0), col_lt (fare_amount r) (lit 1000),
      col_gt (total_amount r) (lit 0), col_lt (total_amount r) (lit 1000),
      col_ge (tip_amount r) (lit 0),
      isin (RatecodeID r) [1, 2, 3, 4, 5, 6],
      isin (payment_type r) [1, 2, 3, 4, 5, 6]]"

definition df_filtered_early :: "string trip_row list \<Rightarrow> string trip_row list" where
  "df_filtered_early df = df_filter early_cond df"

text \<open>Step 2 (lines 81--87): both raw strings are replaced by parsed timestamps.\<close>

definition with_timestamps :: "sql_functions \<Rightarrow> string trip_row \<Rightarrow> timestamp trip_row" where
  "with_timestamps F r =
     \<lparr>VendorID = VendorID r,
      tpep_pickup_datetime = Option.bind (tpep_pickup_datetime r) (to_timestamp F),
      tpep_dropoff_datetime = Option.bind (tpep_dropoff_datetime r) (to_timestamp F),
      passenger_count = passenger_count r,
      trip_distance = trip_distance r,
      RatecodeID = RatecodeID r,
      store_and_fwd_flag = store_and_fwd_flag r,
      PULocationID = PULocationID r,
      DOLocationID = DOLocationID r,
      payment_type = payment_type r,
      fare_amount = fare_amount r,
      extra = extra r,
      mta_tax = mta_tax r,
      tip_amount = tip_amount r,
      tolls_amount = tolls_amount r,
      improvement_surcharge = improvement_surcharge r,
      total_amount = total_amount r\<rparr>"

definition df_with_timestamps :: "sql_functions \<Rightarrow> string trip_row list \<Rightarrow> timestamp trip_row list" where
  "df_with_timestamps F df = map (with_timestamps F) (df_filtered_early df)"

text \<open>Step 3 (lines 90--96): the condition of \<open>df_date_filtered\<close>.\<close>

definition date_cond :: "sql_functions \<Rightarrow> timestamp trip_row \<Rightarrow> bool option" where
  "date_cond F r = foldl col_and (isNotNull (tpep_pickup_datetime r))
     [isNotNull (tpep_dropoff_datetime r),
      col_lt (tpep_pickup_datetime r) (tpep_dropoff_datetime r),
      col_eq (map_option (year F) (tpep_pickup_datetime r)) (lit 2018),
      col_eq (map_option (year F) (tpep_dropoff_datetime r)) (lit 2018)]"

definition df_date_filtered :: "sql_functions \<Rightarrow> string trip_row list \<Rightarrow> timestamp trip_row list" where
  "df_date_filtered F df = df_filter (date_cond F) (df_with_timestamps F df)"

text \<open>
  Step 4 (lines 99--118): the six derived columns. \<open>speed_mph\<close> reads the column
  \<open>trip_duration_minutes\<close> added just before it.
\<close>

definition duration_minutes :: "timestamp trip_row \<Rightarrow> real option" where
  "duration_minutes r =
     col_div (to_double (col_sub (unix_timestamp (tpep_dropoff_datetime r))
                                 (unix_timestamp (tpep_pickup_datetime r))))
             (lit 60)"

definition speed_of :: "real option \<Rightarrow> real option \<Rightarrow> real option" where
  "speed_of dur distance =
     when_otherwise (col_gt dur (lit 0)) (col_div distance (col_div dur (lit 60))) (lit 0)"

definition tip_percentage_of :: "real option \<Rightarrow> real option \<Rightarrow> real option" where
  "tip_percentage_of fare tip =
     when_otherwise (col_gt fare (lit 0)) (col_mul (col_div tip fare) (lit 100)) (lit 0)"

definition enrich :: "sql_functions \<Rightarrow> timestamp trip_row \<Rightarrow> enriched_row" where
  "enrich F r = trip_row.extend r
     (enriched_row.fields
        (duration_minutes r)
        (map_option (hour F) (tpep_pickup_datetime r))
        (map_option (dayofweek F) (tpep_pickup_datetime r))
        (map_option (month F) (tpep_pickup_datetime r))
        (speed_of (duration_minutes r) (trip_distance r))
        (tip_percentage_of (fare_amount r) (tip_amount r)))"

definition df_enriched :: "sql_functions \<Rightarrow> string trip_row list \<Rightarrow> enriched_row list" where
  "df_enriched F df = map (enrich F) (df_date_filtered F df)"

text \<open>The final filter (lines 121--125).\<close>

definition final_cond :: "enriched_row \<Rightarrow> bool option" where
  "final_cond e = foldl col_and (col_ge (trip_duration_minutes e) (lit 1))
     [col_le (trip_duration_minutes e) (lit 480),
      col_ge (speed_mph e) (lit 0), col_le (speed_mph e) (lit 80),
      col_ge (tip_percentage e) (lit 0), col_le (tip_percentage e) (lit 50)]"

definition df_final :: "sql_functions \<Rightarrow> string trip_row list \<Rightarrow> enriched_row list" where
  "df_final F df = df_filter final_cond (df_enriched F df)"

subsection \<open>Example data\<close>

text \<open>
  A session in the UTC time zone: the calendar fields are computed from the day number
  (the proleptic Gregorian calendar), and the parser is restricted to the two strings the
  examples use.
\<close>

definition utc_days :: "timestamp \<Rightarrow> int" where
  "utc_days t = (t div 1000000) div 86400"

definition civil_year_month :: "int \<Rightarrow> int \<times> int" where
  "civil_year_month days =
     (let z = days + 719468;
          era = z div 146097;
          doe = z mod 146097;
          yoe = (doe - doe div 1460 + doe div 36524 - doe div 146096) div 365;
          doy = doe - (365 * yoe + yoe div 4 - yoe div 100);
          mp = (5 * doy + 2) div 153;
          m = (if mp < 10 then mp + 3 else mp - 9)
      in (if m \<le> 2 then yoe + era * 400 + 1 else yoe + era * 400, m))"

definition example_functions :: sql_functions where
  "example_functions =
     \<lparr>to_timestamp = map_of
        [(''01/01/2018 10:00:00 AM'', 1514800800000000),
         (''01/01/2018 10:30:00 AM'', 1514802600000000)],
      year = (\<lambda>t. fst (civil_year_month (utc_days t))),
      hour = (\<lambda>t. ((t div 1000000) mod 86400) div 3600),
      dayofweek = (\<lambda>t. (utc_days t + 4) mod 7 + 1),
      month = (\<lambda>t. snd (civil_year_month (utc_days t)))\<rparr>"

definition example_trip :: "string trip_row" where
  "example_trip =
     \<lparr>VendorID = Some 1,
      tpep_pickup_datetime = Some ''01/01/2018 10:00:00 AM'',
      tpep_dropoff_datetime = Some ''01/01/2018 10:30:00 AM'',
      passenger_count = Some 2,
      trip_distance = Some 5,
      RatecodeID = Some 1,
      store_and_fwd_flag = Some ''N'',
      PULocationID = Some 100,
      DOLocationID = Some 200,
      payment_type = Some 1,
      fare_amount = Some 20,
      extra = Some 0,
      mta_tax = Some 1,
      tip_amount = Some 4,
      tolls_amount = Some 0,
      improvement_surcharge = Some 0,
      total_amount = Some 25\<rparr>"

definition nine_passengers :: "string trip_row" where
  "nine_passengers = example_trip\<lparr>passenger_count := Some 9\<rparr>"

definition same_instant :: "string trip_row" where
  "same_instant = example_trip\<lparr>tpep_dropoff_datetime := Some ''01/01/2018 10:00:00 AM''\<rparr>"


section \<open>The consolidation job (scripts/consolidate\_chunks.py)\<close>

text \<open>
  \<open>consolidate_chunks_and_cleanup\<close> works on the file system, which is modelled as an
  explicit state. For a given \<open>PARQUET_PATH\<close> the state holds
  \<^item> \<open>chunk_entries\<close>: what \<open>glob(PARQUET_PATH/chunk_*)\<close> returns, in the order of
    \<open>glob\<close>, and for each entry the \<open>*.parquet\<close> files inside it, again in the order of
    \<open>glob\<close>, each with the rows \<open>pd.read_parquet\<close> returns for it (\<open>None\<close> when the
    read raises);
  \<^item> \<open>other_entries\<close> and \<open>root_exists\<close>: the rest of the listing of \<open>PARQUET_PATH\<close>
    and whether that directory exists;
  \<^item> \<open>written\<close>: the files written by \<open>to_parquet\<close>;
  \<^item> \<open>rmtree_ok\<close> and \<open>to_parquet_ok\<close>: whether \<open>shutil.rmtree\<close> of a folder and
    \<open>to_parquet\<close> to a path succeed. A failing \<open>to_parquet\<close> is taken to leave no
    file behind.
  A DataFrame is the list of its rows; \<open>pd.concat\<close> is concatenation.
\<close>

type_synonym path = string

record 'r disk =
  chunk_entries :: "(path \<times> (path \<times> 'r list option) list) list"
  other_entries :: "path list"
  root_exists :: bool
  written :: "path \<rightharpoonup> 'r list"
  rmtree_ok :: "path \<Rightarrow> bool"
  to_parquet_ok :: "path \<Rightarrow> bool"

text \<open>\<open>glob(chunk_folder/*.parquet)\<close> on the current state.\<close>

definition glob_parquet :: "'r disk \<Rightarrow> path \<Rightarrow> (path \<times> 'r list option) list" where
  "glob_parquet d chunk_folder =
     (case map_of (chunk_entries d) chunk_folder of None \<Rightarrow> [] | Some fs \<Rightarrow> fs)"

definition rmtree :: "path \<Rightarrow> 'r disk \<Rightarrow> 'r disk" where
  "rmtree chunk_folder d =
     d\<lparr>chunk_entries := filter (\<lambda>c. fst c \<noteq> chunk_folder) (chunk_entries d)\<rparr>"

text \<open>
  The loop of lines 35--61 over the sorted folder names, with \<open>all_data\<close> as
  accumulator. A folder without parquet files is skipped; only the first parquet file
  of a folder is read; an exception of \<open>read_parquet\<close> or of \<open>rmtree\<close> is caught and
  the loop goes on (after a failing \<open>rmtree\<close> the chunk is already in \<open>all_data\<close>).
\<close>

fun process_chunks :: "path list \<Rightarrow> 'r disk \<times> 'r list list \<Rightarrow> 'r disk \<times> 'r list list" where
  "process_chunks [] st = st"
| "process_chunks (chunk_folder # rest) (d, all_data) =
     (case glob_parquet d chunk_folder of
        [] \<Rightarrow> process_chunks rest (d, all_data)
      | (parquet_file, content) # others \<Rightarrow>
          (case content of
             None \<Rightarrow> process_chunks rest (d, all_data)
           | Some df_chunk \<Rightarrow>
               if rmtree_ok d chunk_folder
               then process_chunks rest (rmtree chunk_folder d, all_data @ [df_chunk])
               else process_chunks rest (d, all_data @ [df_chunk])))"

text \<open>
  Lines 72--79: the consolidated file is written beside the main folder; when
  \<open>PARQUET_PATH\<close> ends in a slash the file lies inside the folder and is one more entry
  of its listing.
\<close>

definition to_parquet :: "path \<Rightarrow> path \<Rightarrow> 'r list \<Rightarrow> 'r disk \<Rightarrow> 'r disk" where
  "to_parquet p consolidated_path rows d =
     d\<lparr>written := (written d)(consolidated_path \<mapsto> rows),
       other_entries := (if p \<noteq> [] \<and> last p = CHR ''/''
                         then other_entries d @ [consolidated_path] else other_entries d)\<rparr>"

text \<open>Lines 84--88: the main folder is removed when it exists and is empty.\<close>

definition remove_root_if_empty :: "'r disk \<Rightarrow> 'r disk" where
  "remove_root_if_empty d =
     (if root_exists d \<and> chunk_entries d = [] \<and> other_entries d = []
      then d\<lparr>root_exists := False\<rparr> else d)"

text \<open>
  The function: its argument is the value of the environment variable
  \<open>PARQUET_PATH\<close>, its result the returned path (\<open>None\<close> for Python's \<open>None\<close>) and the
  file system it leaves.
\<close>

definition consolidate_chunks_and_cleanup :: "string option \<Rightarrow> 'r disk \<Rightarrow> path option \<times> 'r disk" where
  "consolidate_chunks_and_cleanup PARQUET_PATH d =
     (case PARQUET_PATH of
        None \<Rightarrow> (None, d)
      | Some p \<Rightarrow>
          if p = [] then (None, d)
          else if chunk_entries d = [] then (None, d)
          else (case process_chunks (sort (map fst (chunk_entries d))) (d, []) of
                  (d1, all_data) \<Rightarrow>
                    if all_data = [] then (None, d1)
                    else if to_parquet_ok d1 (p @ ''_consolidated.parquet'')
                    then (Some (p @ ''_consolidated.parquet''),
                          remove_root_if_empty
                            (to_parquet p (p @ ''_consolidated.parquet'') (concat all_data) d1))
                    else (None, d1)))"

text \<open>
  For the statements: the rows the loop reads from a folder (those of its first
  parquet file), and whether the loop deletes the folder; the frames of all the parquet
  files of a folder that can be read; the frames of all the chunk files that can be
  read, in the sorted order of the folders; and the layout in which a chunk folder holds
  at most one parquet file.
\<close>

definition first_rows :: "'r disk \<Rightarrow> path \<Rightarrow> 'r list option" where
  "first_rows d chunk_folder =
     (case glob_parquet d chunk_folder of [] \<Rightarrow> None | (f, content) # others \<Rightarrow> content)"

definition chunk_deleted :: "'r disk \<Rightarrow> path \<Rightarrow> bool" where
  "chunk_deleted d chunk_folder \<longleftrightarrow> first_rows d chunk_folder \<noteq> None \<and> rmtree_ok d chunk_folder"

definition readable_files :: "'r disk \<Rightarrow> path \<Rightarrow> 'r list list" where
  "readable_files d chunk_folder = List.map_filter snd (glob_parquet d chunk_folder)"

definition chunk_files :: "'r disk \<Rightarrow> 'r list list" where
  "chunk_files d = concat (map (readable_files d) (sort (map fst (chunk_entries d))))"

definition single_file_chunks :: "'r disk \<Rightarrow> bool" where
  "single_file_chunks d = list_all (\<lambda>c. length (snd c) \<le> 1) (chunk_entries d)"

subsection \<open>Example data\<close>

text \<open>One readable chunk on a disk where the consolidated file cannot be written.\<close>

definition failing_disk :: "nat disk" where
  "failing_disk =
     \<lparr>chunk_entries = [(''out/chunk_0'', [(''out/chunk_0/part-0.parquet'', Some [1, 2])])],
      other_entries = [], root_exists = True, written = Map.empty,
      rmtree_ok = (\<lambda>p. True), to_parquet_ok = (\<lambda>p. False)\<rparr>"

text \<open>
  Four chunk folders with at most one parquet file each: one is empty, and the file of
  another cannot be read.
\<close>

definition example_disk :: "nat disk" where
  "example_disk =
     \<lparr>chunk_entries =
        [(''out/chunk_1'', [(''out/chunk_1/part-0.parquet'', Some [3])]),
         (''out/chunk_2'', []),
         (''out/chunk_3'', [(''out/chunk_3/part-0.parquet'', None)]),
         (''out/chunk_0'', [(''out/chunk_0/part-0.parquet'', Some [1, 2])])],
      other_entries = [], root_exists = True, written = Map.empty,
      rmtree_ok = (\<lambda>p. True), to_parquet_ok = (\<lambda>p. True)\<rparr>"

text \<open>One chunk folder with two parquet files.\<close>

definition two_file_disk :: "nat disk" where
  "two_file_disk =
     \<lparr>chunk_entries =
        [(''out/chunk_0'', [(''out/chunk_0/part-0.parquet'', Some [1, 2]),
                            (''out/chunk_0/part-1.parquet'', Some [9])])],
      other_entries = [], root_exists = True, written = Map.empty,
      rmtree_ok = (\<lambda>p. True), to_parquet_ok = (\<lambda>p. True)\<rparr>"

section \<open>The query API (api/main.py)\<close>

text \<open>
  The file holds two generations of the API, one after the other. Lines 1--422 are a
  complete module: the global \<open>DATA_CACHE\<close>, \<open>load_parquet_data\<close> (line 39),
  \<open>apply_filter\<close> (line 114) and the routes, among them \<open>POST /filter\<close>
  (\<open>filter_data\<close>, line 267). From line 423 on the file goes on with the tail of an
  earlier version: a second \<open>load_parquet_data\<close> (line 427) and \<open>GET /filter\<close> (a
  second \<open>filter_data\<close>, line 568), among others. When the module body is executed to
  its end, the name \<open>load_parquet_data\<close> is bound to the second definition, and every
  route looks the loader up by that name when it is called. The routes are therefore
  modelled with the loader as a parameter. Definitions carry the names of the source;
  those of the second half have the line of their \<open>def\<close> appended.
\<close>

subsection \<open>Python strings\<close>

text \<open>Strings are byte strings; \<open>lower\<close> and \<open>strip\<close> are modelled on ASCII.\<close>

definition char_lower :: "char \<Rightarrow> char" where
  "char_lower c =
     (if CHR ''A'' \<le> c \<and> c \<le> CHR ''Z'' then char_of (of_char c + (32::nat)) else c)"

definition lower :: "string \<Rightarrow> string" where
  "lower s = map char_lower s"

definition isspace :: "char \<Rightarrow> bool" where
  "isspace c = (let n = (of_char c :: nat) in (9 \<le> n \<and> n \<le> 13) \<or> (28 \<le> n \<and> n \<le> 32))"

definition strip :: "string \<Rightarrow> string" where
  "strip s = rev (dropWhile isspace (rev (dropWhile isspace s)))"

text \<open>\<open>s.split(sep)\<close> for a separator of one character.\<close>

fun split :: "char \<Rightarrow> string \<Rightarrow> string list" where
  "split sep [] = [[]]"
| "split sep (c # cs) =
     (if c = sep then [] # split sep cs
      else (case split sep cs of [] \<Rightarrow> [[c]] | w # ws \<Rightarrow> (c # w) # ws))"

fun startswith :: "string \<Rightarrow> string \<Rightarrow> bool" where
  "startswith s [] = True"
| "startswith [] (p # ps) = False"
| "startswith (c # cs) (p # ps) = (c = p \<and> startswith cs ps)"

definition endswith :: "string \<Rightarrow> string \<Rightarrow> bool" where
  "endswith s suffix = startswith (rev s) (rev suffix)"

text \<open>\<open>pat in s\<close>: the pattern occurs somewhere in the string.\<close>

fun find_in :: "string \<Rightarrow> string \<Rightarrow> bool" where
  "find_in pat [] = (pat = [])"
| "find_in pat (c # cs) = (startswith (c # cs) pat \<or> find_in pat cs)"

text \<open>\<open>str(i)\<close> of an integer.\<close>

fun str_nat :: "nat \<Rightarrow> string" where
  "str_nat n = (if n < 10 then [char_of (48 + n)] else str_nat (n div 10) @ [char_of (48 + n mod 10)])"

declare str_nat.simps [simp del]

definition str_int :: "int \<Rightarrow> string" where
  "str_int i = (if i < 0 then CHR ''-'' # str_nat (nat (- i)) else str_nat (nat i))"

subsection \<open>Values, columns and frames\<close>

text \<open>
  A request value is JSON (\<open>value: Any\<close>): \<open>null\<close>, a number, a string, or a list of
  numbers and strings. Booleans, objects, nested lists and lists that contain \<open>null\<close>
  are outside the model. Floats are modelled as \<open>real\<close>.
\<close>

datatype scalar = PyInt int | PyFloat real | PyStr string

datatype pyval = PyNone | Scalar scalar | PyList "scalar list"

text \<open>
  A column has one of the dtypes \<open>int64\<close>, \<open>float64\<close> (\<open>None\<close> is NaN, the missing
  value) and \<open>object\<close> holding strings (\<open>None\<close> is the missing value). The
  \<open>category\<close> and \<open>datetime64\<close> dtypes are outside the model.
  A DataFrame is its row labels and its named columns; in a well-formed frame every
  column is as long as the index.
\<close>

datatype series =
    Int64 "int list"
  | Float64 "real option list"
  | Object "string option list"

record DataFrame =
  index :: "nat list"
  data :: "(string \<times> series) list"

definition series_len :: "series \<Rightarrow> nat" where
  "series_len s = (case s of Int64 xs \<Rightarrow> length xs | Float64 xs \<Rightarrow> length xs | Object xs \<Rightarrow> length xs)"

definition wf_frame :: "DataFrame \<Rightarrow> bool" where
  "wf_frame df = list_all (\<lambda>c. series_len (snd c) = length (index df)) (data df)"

text \<open>
  Exceptions. The messages of the source are Portuguese text; an exception is
  modelled by a constructor for the message and the interpolated name or value:
  \<^item> \<open>ColumnNotFound c\<close>, \<open>BetweenRequiresValue2\<close>, \<open>OperatorNotSupported op\<close>: the three
    \<open>ValueError\<close>s raised by \<open>apply_filter\<close> (lines 123, 144, 149);
  \<^item> \<open>InvalidComparison\<close>: the \<open>TypeError\<close> pandas raises for an ordering comparison
    between values of incomparable types; \<open>OnlyListLike\<close>: the \<open>TypeError\<close> of
    \<open>isin\<close> for an argument that is not a list;
  \<^item> \<open>FileNotFoundError\<close> (lines 90 and 440); \<open>ReadError\<close>: whatever
    \<open>pd.read_parquet\<close> raises; \<open>CouldNotConvert v\<close>: the \<open>ValueError\<close> of \<open>float(v)\<close>;
  \<^item> \<open>RequestValidationError\<close>: the framework's rejection of a query parameter outside
    its declared bounds;
  \<^item> \<open>HTTPException status words cause\<close>: an \<open>HTTPException\<close> with that status code
    whose detail is fixed words followed by \<open>str\<close> of the exception caught, or by a name
    or value (\<open>Text\<close>);
  \<^item> \<open>OutsideModel\<close>: the behaviour of the library on this input is not modelled.
\<close>

datatype exn =
    ColumnNotFound string
  | BetweenRequiresValue2
  | OperatorNotSupported string
  | InvalidComparison
  | OnlyListLike
  | FileNotFoundError
  | ReadError
  | CouldNotConvert string
  | RequestValidationError
  | Text string
  | OutsideModel
  | HTTPException nat string exn

definition bind_exn :: "exn + 'a \<Rightarrow> ('a \<Rightarrow> exn + 'b) \<Rightarrow> exn + 'b" where
  "bind_exn r f = (case r of Inl e \<Rightarrow> Inl e | Inr x \<Rightarrow> f x)"

subsection \<open>The pandas operations the filters use\<close>

datatype cmpop = Eq | Gt | Lt | Ge | Le

definition compare :: "cmpop \<Rightarrow> 'a::linorder \<Rightarrow> 'a \<Rightarrow> bool" where
  "compare op x y =
     (case op of Eq \<Rightarrow> x = y | Gt \<Rightarrow> y < x | Lt \<Rightarrow> x < y | Ge \<Rightarrow> y \<le> x | Le \<Rightarrow> x \<le> y)"

text \<open>
  A column compared with a scalar gives a boolean mask. A number against a number is
  compared as a number, a string against a string in the order of the code points; a
  missing cell never matches. A numeric column against a string, and a string cell
  against a number, are unequal under \<open>==\<close> and raise \<open>TypeError\<close> under an ordering.
  Compared with \<open>None\<close> every cell gives \<open>False\<close>. A list operand is outside the model.

  pandas compares an integer with a float in \<open>float64\<close>. The model compares the exact
  values, which is the same as long as every integer involved is at most \<open>2^53\<close> in
  absolute value; beyond that the conversion rounds, and the comparison is outside the
  model.
\<close>

definition float_exact :: "int \<Rightarrow> bool" where
  "float_exact x = (- 9007199254740992 \<le> x \<and> x \<le> 9007199254740992)"

fun rounding_free :: "series \<Rightarrow> scalar \<Rightarrow> bool" where
  "rounding_free (Int64 xs) (PyFloat f) = list_all float_exact xs"
| "rounding_free (Float64 ys) (PyInt j) = float_exact j"
| "rounding_free s v = True"

definition invalid_comparison :: "cmpop \<Rightarrow> nat \<Rightarrow> exn + bool list" where
  "invalid_comparison op n = (if op = Eq then Inr (replicate n False) else Inl InvalidComparison)"

definition compare_object :: "cmpop \<Rightarrow> string option list \<Rightarrow> scalar \<Rightarrow> exn + bool list" where
  "compare_object op xs v =
     (case v of
        PyStr t \<Rightarrow> Inr (map (\<lambda>c. case c of None \<Rightarrow> False | Some s \<Rightarrow> compare op s t) xs)
      | _ \<Rightarrow> if op = Eq \<or> list_all (\<lambda>c. c = None) xs
             then Inr (replicate (length xs) False)
             else Inl InvalidComparison)"

definition scalar_compare :: "cmpop \<Rightarrow> series \<Rightarrow> scalar \<Rightarrow> exn + bool list" where
  "scalar_compare op s v =
     (if \<not> rounding_free s v then Inl OutsideModel
      else case s of
        Int64 xs \<Rightarrow>
          (case v of
             PyInt j \<Rightarrow> Inr (map (\<lambda>x. compare op x j) xs)
           | PyFloat f \<Rightarrow> Inr (map (\<lambda>x. compare op (real_of_int x) f) xs)
           | PyStr t \<Rightarrow> invalid_comparison op (length xs))
      | Float64 xs \<Rightarrow>
          (case v of
             PyInt j \<Rightarrow> Inr (map (\<lambda>c. case c of None \<Rightarrow> False | Some x \<Rightarrow> compare op x (real_of_int j)) xs)
           | PyFloat f \<Rightarrow> Inr (map (\<lambda>c. case c of None \<Rightarrow> False | Some x \<Rightarrow> compare op x f) xs)
           | PyStr t \<Rightarrow> invalid_comparison op (length xs))
      | Object xs \<Rightarrow> compare_object op xs v)"

definition series_compare :: "cmpop \<Rightarrow> series \<Rightarrow> pyval \<Rightarrow> exn + bool list" where
  "series_compare op s v =
     (case v of
        PyNone \<Rightarrow> Inr (replicate (series_len s) False)
      | Scalar a \<Rightarrow> scalar_compare op s a
      | PyList vs \<Rightarrow> Inl OutsideModel)"

text \<open>
  \<open>Series.isin(values)\<close>: a cell matches when it equals one of the values, a number
  being equal to a number of the same value and never to a string. With a float among
  the values, or with a float column, pandas matches in \<open>float64\<close>; the model matches
  the exact values and leaves the cases where an integer would be rounded outside.
\<close>

definition not_float :: "scalar \<Rightarrow> bool" where
  "not_float v = (case v of PyFloat f \<Rightarrow> False | _ \<Rightarrow> True)"

definition scalar_exact :: "scalar \<Rightarrow> bool" where
  "scalar_exact v = (case v of PyInt j \<Rightarrow> float_exact j | _ \<Rightarrow> True)"

definition isin_exact :: "series \<Rightarrow> scalar list \<Rightarrow> bool" where
  "isin_exact s vs \<longleftrightarrow>
     list_all (rounding_free s) vs \<and> (list_all not_float vs \<or> list_all scalar_exact vs)"

definition int_matches :: "int \<Rightarrow> scalar \<Rightarrow> bool" where
  "int_matches x v = (case v of PyInt j \<Rightarrow> x = j | PyFloat f \<Rightarrow> real_of_int x = f | PyStr t \<Rightarrow> False)"

definition float_matches :: "real option \<Rightarrow> scalar \<Rightarrow> bool" where
  "float_matches c v =
     (case c of None \<Rightarrow> False
      | Some x \<Rightarrow> (case v of PyInt j \<Rightarrow> x = real_of_int j | PyFloat f \<Rightarrow> x = f | PyStr t \<Rightarrow> False))"

definition object_matches :: "string option \<Rightarrow> scalar \<Rightarrow> bool" where
  "object_matches c v =
     (case c of None \<Rightarrow> False
      | Some s \<Rightarrow> (case v of PyStr t \<Rightarrow> s = t | _ \<Rightarrow> False))"

definition series_isin :: "series \<Rightarrow> pyval \<Rightarrow> exn + bool list" where
  "series_isin s v =
     (case v of
        PyList vs \<Rightarrow>
          if \<not> isin_exact s vs then Inl OutsideModel
          else Inr (case s of
                 Int64 xs \<Rightarrow> map (\<lambda>x. list_ex (int_matches x) vs) xs
               | Float64 xs \<Rightarrow> map (\<lambda>c. list_ex (float_matches c) vs) xs
               | Object xs \<Rightarrow> map (\<lambda>c. list_ex (object_matches c) vs) xs)
      | _ \<Rightarrow> Inl OnlyListLike)"

text \<open>The number a numeric bound stands for.\<close>

definition num_of :: "scalar \<Rightarrow> real option" where
  "num_of v = (case v of PyInt j \<Rightarrow> Some (real_of_int j) | PyFloat f \<Rightarrow> Some f | PyStr t \<Rightarrow> None)"

text \<open>
  \<open>Series.astype(str)\<close> turns every cell into its \<open>str\<close>: a missing cell of an
  \<open>object\<close> column becomes the string \<open>None\<close> (so pandas 1 and 2, to which the
  calls of the source belong; pandas 3 keeps the cell missing). The text of a float is
  outside the model.
\<close>

definition astype_str :: "series \<Rightarrow> exn + string list" where
  "astype_str s =
     (case s of
        Int64 xs \<Rightarrow> Inr (map str_int xs)
      | Float64 xs \<Rightarrow> Inl OutsideModel
      | Object xs \<Rightarrow> Inr (map (\<lambda>c. case c of None \<Rightarrow> ''None'' | Some t \<Rightarrow> t) xs))"

definition py_str :: "pyval \<Rightarrow> exn + string" where
  "py_str v =
     (case v of
        PyNone \<Rightarrow> Inr ''None''
      | Scalar (PyInt i) \<Rightarrow> Inr (str_int i)
      | Scalar (PyStr t) \<Rightarrow> Inr t
      | _ \<Rightarrow> Inl OutsideModel)"

text \<open>
  \<open>Series.str.contains(pat, case=False, na=False)\<close> reads the pattern as a regular
  expression. A pattern without special characters matches where it occurs in the cell,
  letters compared without case; other patterns are outside the model. The first
  function is for a column of strings without missing cells (after \<open>astype(str)\<close>), the
  second for an \<open>object\<close> column, where \<open>na=False\<close> makes a missing cell not match.
\<close>

definition regex_special :: "char \<Rightarrow> bool" where
  "regex_special c = (c \<in> set (''.^$*+?{}[]|()'' @ [CHR 0x5C]))"

definition str_contains :: "string list \<Rightarrow> string \<Rightarrow> exn + bool list" where
  "str_contains ss pat =
     (if list_ex regex_special pat then Inl OutsideModel
      else Inr (map (\<lambda>s. find_in (lower pat) (lower s)) ss))"

definition contains_na_false :: "string option list \<Rightarrow> string \<Rightarrow> exn + bool list" where
  "contains_na_false xs pat =
     (if list_ex regex_special pat then Inl OutsideModel
      else Inr (map (\<lambda>c. case c of None \<Rightarrow> False | Some s \<Rightarrow> find_in (lower pat) (lower s)) xs))"

text \<open>\<open>df[mask]\<close>: the rows where the mask is true, in their order, with their labels.\<close>

definition pick :: "bool list \<Rightarrow> 'a list \<Rightarrow> 'a list" where
  "pick keep xs = map snd (filter fst (zip keep xs))"

definition series_pick :: "bool list \<Rightarrow> series \<Rightarrow> series" where
  "series_pick keep s =
     (case s of Int64 xs \<Rightarrow> Int64 (pick keep xs)
      | Float64 xs \<Rightarrow> Float64 (pick keep xs)
      | Object xs \<Rightarrow> Object (pick keep xs))"

definition df_mask :: "DataFrame \<Rightarrow> bool list \<Rightarrow> DataFrame" where
  "df_mask df keep =
     \<lparr>index = pick keep (index df),
      data = map (\<lambda>(name, s). (name, series_pick keep s)) (data df)\<rparr>"

text \<open>\<open>df.head(n)\<close>: the first \<open>n\<close> rows, and for a negative \<open>n\<close> all but the last \<open>-n\<close>.\<close>

definition head_count :: "int \<Rightarrow> nat \<Rightarrow> nat" where
  "head_count n len = (if 0 \<le> n then nat n else len - nat (- n))"

definition series_take :: "nat \<Rightarrow> series \<Rightarrow> series" where
  "series_take k s =
     (case s of Int64 xs \<Rightarrow> Int64 (take k xs)
      | Float64 xs \<Rightarrow> Float64 (take k xs)
      | Object xs \<Rightarrow> Object (take k xs))"

definition head :: "int \<Rightarrow> DataFrame \<Rightarrow> DataFrame" where
  "head n df =
     (let k = head_count n (length (index df))
      in \<lparr>index = take k (index df),
          data = map (\<lambda>(name, s). (name, series_take k s)) (data df)\<rparr>)"

subsection \<open>Storage, the process and the two loaders\<close>

text \<open>
  What the loaders ask of the file system: \<open>os.path.isdir\<close>, \<open>os.path.exists\<close>,
  \<open>glob\<close> of \<open>*.parquet\<close> in a directory, \<open>pd.read_parquet\<close> (\<open>None\<close> when it
  raises) and the parquet files \<open>os.walk\<close> of the project root comes across, in its
  order. The process state is the module's global \<open>DATA_CACHE\<close> and, for the statements
  about I/O, the list of the storage operations done so far.
\<close>

datatype io = IsDir path | Glob path | Exists path | ReadParquet path | Walk

record storage =
  isdir :: "path \<Rightarrow> bool"
  path_exists :: "path \<Rightarrow> bool"
  glob_files :: "path \<Rightarrow> path list"
  read_parquet :: "path \<Rightarrow> DataFrame option"
  walk_files :: "path list"

text \<open>
  What is fixed when the module is loaded: \<open>PARQUET_PATH\<close> (line 17), the four
  directories tried after it (lines 50--53) and \<open>os.path.dirname(PARQUET_PATH)\<close>.
  Three library behaviours are parameters as well: the dtype conversions of lines
  93--102 and of lines 447--454, which turn \<open>object\<close> columns into dtypes this model
  does not have, and \<open>float\<close> of a string (\<open>None\<close> when it raises \<open>ValueError\<close>).
\<close>

record settings =
  PARQUET_PATH :: path
  processed_dirs :: "path list"
  parquet_dir :: path
  optimize_dtypes :: "DataFrame \<Rightarrow> DataFrame"
  convert_datetimes :: "DataFrame \<Rightarrow> DataFrame"
  py_float :: "string \<Rightarrow> real option"

record process =
  DATA_CACHE :: "string \<rightharpoonup> DataFrame"
  io_log :: "io list"

text \<open>The loop over \<open>possible_paths\<close> (lines 57--72); an exception moves on to the next path.\<close>

fun try_paths :: "storage \<Rightarrow> path list \<Rightarrow> io list \<Rightarrow> DataFrame option \<times> io list" where
  "try_paths fs [] trace = (None, trace)"
| "try_paths fs (p # possible_paths) trace =
     (if isdir fs p then
        (if glob_files fs p \<noteq> [] then
           (case read_parquet fs p of
              Some df \<Rightarrow> (Some df, trace @ [IsDir p, Glob p, ReadParquet p])
            | None \<Rightarrow> try_paths fs possible_paths (trace @ [IsDir p, Glob p, ReadParquet p]))
         else try_paths fs possible_paths (trace @ [IsDir p, Glob p]))
      else if path_exists fs p \<and> endswith p ''.parquet'' then
        (case read_parquet fs p of
           Some df \<Rightarrow> (Some df, trace @ [IsDir p, Exists p, ReadParquet p])
         | None \<Rightarrow> try_paths fs possible_paths (trace @ [IsDir p, Exists p, ReadParquet p]))
      else try_paths fs possible_paths (trace @ [IsDir p, Exists p]))"

text \<open>The last resort (lines 74--87): the first parquet file under the root that can be read.\<close>

fun try_walk :: "storage \<Rightarrow> path list \<Rightarrow> io list \<Rightarrow> DataFrame option \<times> io list" where
  "try_walk fs [] trace = (None, trace)"
| "try_walk fs (file_path # files) trace =
     (case read_parquet fs file_path of
        Some df \<Rightarrow> (Some df, trace @ [ReadParquet file_path])
      | None \<Rightarrow> try_walk fs files (trace @ [ReadParquet file_path]))"

definition find_parquet :: "settings \<Rightarrow> storage \<Rightarrow> io list \<Rightarrow> DataFrame option \<times> io list" where
  "find_parquet cfg fs trace =
     (case try_paths fs (PARQUET_PATH cfg # processed_dirs cfg) trace of
        (Some df, trace1) \<Rightarrow> (Some df, trace1)
      | (None, trace1) \<Rightarrow> try_walk fs (walk_files fs) (trace1 @ [Walk]))"

text \<open>\<open>load_parquet_data\<close> of line 39: the cache is looked up first and filled on success.\<close>

definition load_parquet_data :: "settings \<Rightarrow> storage \<Rightarrow> process \<Rightarrow> (exn + DataFrame) \<times> process" where
  "load_parquet_data cfg fs st =
     (case DATA_CACHE st ''main_df'' of
        Some df \<Rightarrow> (Inr df, st)
      | None \<Rightarrow>
          (case find_parquet cfg fs (io_log st) of
             (None, trace) \<Rightarrow>
               (Inl (HTTPException 500 ''Erro ao carregar dados'' FileNotFoundError),
                st\<lparr>io_log := trace\<rparr>)
           | (Some df, trace) \<Rightarrow>
               (Inr (optimize_dtypes cfg df),
                st\<lparr>DATA_CACHE := (DATA_CACHE st)(''main_df'' \<mapsto> optimize_dtypes cfg df),
                   io_log := trace\<rparr>)))"

text \<open>\<open>load_parquet_data\<close> of line 427: it neither reads nor writes \<open>DATA_CACHE\<close>.\<close>

definition load_parquet_data_l427 :: "settings \<Rightarrow> storage \<Rightarrow> process \<Rightarrow> (exn + DataFrame) \<times> process" where
  "load_parquet_data_l427 cfg fs st =
     (if isdir fs (PARQUET_PATH cfg) then
        (case read_parquet fs (PARQUET_PATH cfg) of
           None \<Rightarrow>
             (Inl (HTTPException 500 ''Erro ao carregar dados'' ReadError),
              st\<lparr>io_log := io_log st @ [IsDir (PARQUET_PATH cfg), ReadParquet (PARQUET_PATH cfg)]\<rparr>)
         | Some df \<Rightarrow>
             (Inr (convert_datetimes cfg df),
              st\<lparr>io_log := io_log st @ [IsDir (PARQUET_PATH cfg), ReadParquet (PARQUET_PATH cfg)]\<rparr>))
      else
        (case glob_files fs (parquet_dir cfg) of
           [] \<Rightarrow>
             (Inl (HTTPException 500 ''Erro ao carregar dados'' FileNotFoundError),
              st\<lparr>io_log := io_log st @ [IsDir (PARQUET_PATH cfg), Glob (parquet_dir cfg)]\<rparr>)
         | file # parquet_files \<Rightarrow>
             (case read_parquet fs file of
                None \<Rightarrow>
                  (Inl (HTTPException 500 ''Erro ao carregar dados'' ReadError),
                   st\<lparr>io_log := io_log st @ [IsDir (PARQUET_PATH cfg), Glob (parquet_dir cfg), ReadParquet file]\<rparr>)
              | Some df \<Rightarrow>
                  (Inr (convert_datetimes cfg df),
                   st\<lparr>io_log := io_log st @ [IsDir (PARQUET_PATH cfg), Glob (parquet_dir cfg), ReadParquet file]\<rparr>))))"

type_synonym loader = "storage \<Rightarrow> process \<Rightarrow> (exn + DataFrame) \<times> process"

text \<open>A sequence of calls of a loader in one process, one storage snapshot per call.\<close>

fun run_calls :: "loader \<Rightarrow> storage list \<Rightarrow> process \<Rightarrow> (exn + DataFrame) list \<times> process" where
  "run_calls load [] st = ([], st)"
| "run_calls load (fs # later) st =
     (case load fs st of
        (r, st') \<Rightarrow> (case run_calls load later st' of (rs, st'') \<Rightarrow> (r # rs, st'')))"

subsection \<open>POST /filter: \<open>apply_filter\<close> and \<open>filter_data\<close> (lines 114--154 and 266--303)\<close>

text \<open>\<open>FilterRequest\<close> (line 28); an absent \<open>value2\<close> is \<open>None\<close>, the default.\<close>

record FilterRequest =
  req_column :: string
  req_operator :: string
  req_value :: pyval
  req_value2 :: pyval
  req_limit :: "int option"

text \<open>
  The body of the \<open>try\<close> of \<open>apply_filter\<close> up to the selection of the rows (lines
  117--149). Line 126 reads the dtype of the column into \<open>col_dtype\<close>, under the comment
  that the values are converted to the type of the column; the variable is never used,
  and the request value reaches pandas as it came.
\<close>

definition select_rows :: "DataFrame \<Rightarrow> FilterRequest \<Rightarrow> exn + DataFrame" where
  "select_rows df filter_req =
     (let column = req_column filter_req;
          operator = lower (req_operator filter_req);
          value = req_value filter_req;
          value2 = req_value2 filter_req
      in case map_of (data df) column of
           None \<Rightarrow> Inl (ColumnNotFound column)
         | Some col \<Rightarrow>
             if operator = ''eq'' then
               bind_exn (series_compare Eq col value) (\<lambda>m. Inr (df_mask df m))
             else if operator = ''gt'' then
               bind_exn (series_compare Gt col value) (\<lambda>m. Inr (df_mask df m))
             else if operator = ''lt'' then
               bind_exn (series_compare Lt col value) (\<lambda>m. Inr (df_mask df m))
             else if operator = ''gte'' then
               bind_exn (series_compare Ge col value) (\<lambda>m. Inr (df_mask df m))
             else if operator = ''lte'' then
               bind_exn (series_compare Le col value) (\<lambda>m. Inr (df_mask df m))
             else if operator = ''in'' then
               bind_exn (series_isin col
                   (case value of
                      Scalar (PyStr t) \<Rightarrow> PyList (map (\<lambda>v. PyStr (strip v)) (split CHR '','' t))
                    | _ \<Rightarrow> value))
                 (\<lambda>m. Inr (df_mask df m))
             else if operator = ''between'' then
               (if value2 = PyNone then Inl BetweenRequiresValue2
                else bind_exn (series_compare Ge col value) (\<lambda>m1.
                     bind_exn (series_compare Le col value2) (\<lambda>m2.
                       Inr (df_mask df (map2 (\<and>) m1 m2)))))
             else if operator = ''contains'' then
               bind_exn (astype_str col) (\<lambda>ss.
               bind_exn (py_str value) (\<lambda>pat.
               bind_exn (str_contains ss pat) (\<lambda>m. Inr (df_mask df m))))
             else Inl (OperatorNotSupported operator))"

text \<open>Line 151: \<open>filtered_df.head(limit) if limit else filtered_df\<close>; 0 and \<open>None\<close> are false.\<close>

definition apply_limit :: "int option \<Rightarrow> DataFrame \<Rightarrow> DataFrame" where
  "apply_limit limit filtered_df =
     (case limit of
        None \<Rightarrow> filtered_df
      | Some n \<Rightarrow> if n = 0 then filtered_df else head n filtered_df)"

text \<open>Every exception leaves \<open>apply_filter\<close> as an \<open>HTTPException\<close> with status 400 (line 154).\<close>

definition apply_filter :: "DataFrame \<Rightarrow> FilterRequest \<Rightarrow> exn + DataFrame" where
  "apply_filter df filter_req =
     (case select_rows df filter_req of
        Inl e \<Rightarrow> Inl (HTTPException 400 ''Erro no filtro'' e)
      | Inr filtered_df \<Rightarrow> Inr (apply_limit (req_limit filter_req) filtered_df))"

text \<open>
  The response of \<open>POST /filter\<close>. The conversion of the cells to JSON (lines 274--288)
  is not modelled: a row of \<open>data\<close> is given by its label.
\<close>

record FilterResponse =
  resp_data :: "nat list"
  filtered_count :: nat
  total_records :: nat
  filter_applied :: "string \<times> string \<times> pyval \<times> pyval"

definition filter_data :: "loader \<Rightarrow> storage \<Rightarrow> process \<Rightarrow> FilterRequest \<Rightarrow> (exn + FilterResponse) \<times> process" where
  "filter_data load fs st filter_req =
     (case load fs st of
        (Inl e, st') \<Rightarrow> (Inl (HTTPException 400 ''Erro no filtro'' e), st')
      | (Inr df, st') \<Rightarrow>
          (case apply_filter df filter_req of
             Inl e \<Rightarrow> (Inl (HTTPException 400 ''Erro no filtro'' e), st')
           | Inr filtered_df \<Rightarrow>
               (Inr \<lparr>resp_data = index filtered_df,
                     filtered_count = length (index filtered_df),
                     total_records = length (index df),
                     filter_applied = (req_column filter_req, req_operator filter_req,
                                       req_value filter_req, req_value2 filter_req)\<rparr>,
                st')))"

subsection \<open>GET /filter: \<open>filter_data\<close> of line 568\<close>

text \<open>\<open>int(f)\<close> of a float: truncation towards zero.\<close>

definition py_int :: "real \<Rightarrow> int" where
  "py_int f = (if 0 \<le> f then \<lfloor>f\<rfloor> else \<lceil>f\<rceil>)"

definition float_value :: "settings \<Rightarrow> string \<Rightarrow> exn + real" where
  "float_value cfg v = (case py_float cfg v of None \<Rightarrow> Inl (CouldNotConvert v) | Some f \<Rightarrow> Inr f)"

fun float_values :: "settings \<Rightarrow> string list \<Rightarrow> exn + real list" where
  "float_values cfg [] = Inr []"
| "float_values cfg (v # vs) =
     bind_exn (float_value cfg v) (\<lambda>f. bind_exn (float_values cfg vs) (\<lambda>fs. Inr (f # fs)))"

text \<open>
  Lines 580--628: the value arrives as a string and is converted for a numeric column
  (\<open>eq\<close>, \<open>in\<close>) or always (\<open>gt\<close>, \<open>lt\<close>, \<open>gte\<close>, \<open>lte\<close>); \<open>contains\<close> is refused
  for a column that is not of dtype \<open>object\<close>.
\<close>

definition select_rows_l568 :: "settings \<Rightarrow> DataFrame \<Rightarrow> string \<Rightarrow> string \<Rightarrow> string \<Rightarrow> exn + DataFrame" where
  "select_rows_l568 cfg df column operator value =
     (case map_of (data df) column of
        None \<Rightarrow> Inl (HTTPException 400 ''Coluna nao encontrada'' (Text column))
      | Some col \<Rightarrow>
          if operator = ''eq'' then
            bind_exn
              (case col of
                 Object xs \<Rightarrow> Inr (PyStr value)
               | Int64 xs \<Rightarrow>
                   (case py_float cfg value of
                      None \<Rightarrow> Inl (HTTPException 400 ''Valor invalido para coluna numerica'' (Text value))
                    | Some f \<Rightarrow> Inr (PyInt (py_int f)))
               | Float64 xs \<Rightarrow>
                   (case py_float cfg value of
                      None \<Rightarrow> Inl (HTTPException 400 ''Valor invalido para coluna numerica'' (Text value))
                    | Some f \<Rightarrow> Inr (PyFloat f)))
              (\<lambda>v. bind_exn (series_compare Eq col (Scalar v)) (\<lambda>m. Inr (df_mask df m)))
          else if operator = ''gt'' then
            bind_exn (float_value cfg value) (\<lambda>f.
            bind_exn (series_compare Gt col (Scalar (PyFloat f))) (\<lambda>m. Inr (df_mask df m)))
          else if operator = ''lt'' then
            bind_exn (float_value cfg value) (\<lambda>f.
            bind_exn (series_compare Lt col (Scalar (PyFloat f))) (\<lambda>m. Inr (df_mask df m)))
          else if operator = ''gte'' then
            bind_exn (float_value cfg value) (\<lambda>f.
            bind_exn (series_compare Ge col (Scalar (PyFloat f))) (\<lambda>m. Inr (df_mask df m)))
          else if operator = ''lte'' then
            bind_exn (float_value cfg value) (\<lambda>f.
            bind_exn (series_compare Le col (Scalar (PyFloat f))) (\<lambda>m. Inr (df_mask df m)))
          else if operator = ''in'' then
            bind_exn
              (case col of
                 Object xs \<Rightarrow> Inr (map (\<lambda>v. PyStr (strip v)) (split CHR '','' value))
               | Int64 xs \<Rightarrow>
                   bind_exn (float_values cfg (map strip (split CHR '','' value)))
                     (\<lambda>fs. Inr (map (\<lambda>f. PyInt (py_int f)) fs))
               | Float64 xs \<Rightarrow>
                   bind_exn (float_values cfg (map strip (split CHR '','' value)))
                     (\<lambda>fs. Inr (map PyFloat fs)))
              (\<lambda>vs. bind_exn (series_isin col (PyList vs)) (\<lambda>m. Inr (df_mask df m)))
          else if operator = ''contains'' then
            (case col of
               Object xs \<Rightarrow> bind_exn (contains_na_false xs value) (\<lambda>m. Inr (df_mask df m))
             | _ \<Rightarrow> Inl (HTTPException 400 ''Operador contains so funciona com colunas de texto'' (Text [])))
          else Inl (HTTPException 400 ''Operador nao suportado'' (Text operator)))"

text \<open>
  The response, without its \<open>filter_applied\<close> text; a row of \<open>data\<close> is given by its
  label.
\<close>

record FilterResult =
  total_matches :: nat
  returned_count :: nat
  result_data :: "nat list"

text \<open>Lines 647--650: an \<open>HTTPException\<close> passes, anything else becomes one with status 500.\<close>

definition reraise :: "string \<Rightarrow> exn \<Rightarrow> exn" where
  "reraise words e = (case e of HTTPException status l c \<Rightarrow> e | _ \<Rightarrow> HTTPException 500 words e)"

text \<open>The route; \<open>limit\<close> is declared \<open>Query(1000, ge=1, le=10000)\<close>.\<close>

definition filter_data_l568 ::
  "loader \<Rightarrow> settings \<Rightarrow> storage \<Rightarrow> process \<Rightarrow> string \<Rightarrow> string \<Rightarrow> string \<Rightarrow> int
     \<Rightarrow> (exn + FilterResult) \<times> process" where
  "filter_data_l568 load cfg fs st column operator value limit =
     (if limit < 1 \<or> 10000 < limit then (Inl RequestValidationError, st)
      else case load fs st of
        (Inl e, st') \<Rightarrow> (Inl (reraise ''Erro ao filtrar dados'' e), st')
      | (Inr df, st') \<Rightarrow>
          (case select_rows_l568 cfg df column operator value of
             Inl e \<Rightarrow> (Inl (reraise ''Erro ao filtrar dados'' e), st')
           | Inr df_filtered \<Rightarrow>
               (Inr \<lparr>total_matches = length (index df_filtered),
                     returned_count = length (index (head limit df_filtered)),
                     result_data = index (head limit df_filtered)\<rparr>,
                st')))"

subsection \<open>Example data\<close>

definition fares :: DataFrame where
  "fares = \<lparr>index = [0, 1, 2],
            data = [(''fare'', Int64 [10, 20, 12]),
                    (''trip_distance'', Float64 [Some 2, Some 4, None]),
                    (''flag'', Object [Some ''N'', None, Some ''Y''])]\<rparr>"

text \<open>A storage with one parquet file in \<open>data/processed\<close>, holding \<open>fares\<close>.\<close>

definition example_storage :: storage where
  "example_storage =
     \<lparr>isdir = (\<lambda>p. p = ''data/processed''),
      path_exists = (\<lambda>p. p = ''data/processed''),
      glob_files = (\<lambda>p. if p = ''data/processed'' then [''data/processed/part-0.parquet''] else []),
      read_parquet = (\<lambda>p. if p = ''data/processed'' \<or> p = ''data/processed/part-0.parquet''
                           then Some fares else None),
      walk_files = [''data/processed/part-0.parquet'']\<rparr>"

text \<open>For the examples, \<open>float\<close> is restricted to strings of decimal digits.\<close>

fun digit_value :: "char \<Rightarrow> nat option" where
  "digit_value c =
     (if CHR ''0'' \<le> c \<and> c \<le> CHR ''9'' then Some (of_char c - 48) else None)"

fun decimal :: "nat \<Rightarrow> string \<Rightarrow> nat option" where
  "decimal acc [] = Some acc"
| "decimal acc (c # cs) =
     (case digit_value c of None \<Rightarrow> None | Some d \<Rightarrow> decimal (10 * acc + d) cs)"

definition digits_only :: "string \<Rightarrow> real option" where
  "digits_only s = (if s = [] then None else map_option real (decimal 0 s))"

definition example_settings :: settings where
  "example_settings =
     \<lparr>PARQUET_PATH = ''data/processed/taxi_clean.parquet'',
      processed_dirs = [''data/processed'', ''api/../data/processed'', ''./data/processed'',
                        ''../data/processed''],
      parquet_dir = ''data/processed'',
      optimize_dtypes = (\<lambda>df. df),
      convert_datetimes = (\<lambda>df. df),
      py_float = digits_only\<rparr>"

definition fresh :: process where
  "fresh = \<lparr>DATA_CACHE = Map.empty, io_log = []\<rparr>"

definition between_10_15 :: FilterRequest where
  "between_10_15 =
     \<lparr>req_column = ''fare'', req_operator = ''between'', req_value = Scalar (PyInt 10),
      req_value2 = Scalar (PyInt 15), req_limit = None\<rparr>"

definition between_in :: "string \<Rightarrow> pyval \<Rightarrow> pyval \<Rightarrow> FilterRequest" where
  "between_in c a b =
     \<lparr>req_column = c, req_operator = ''between'', req_value = a,
      req_value2 = b, req_limit = None\<rparr>"

definition gt_0_limit_2 :: FilterRequest where
  "gt_0_limit_2 =
     \<lparr>req_column = ''fare'', req_operator = ''gt'', req_value = Scalar (PyInt 0),
      req_value2 = PyNone, req_limit = Some 2\<rparr>"

definition eq_fare :: "pyval \<Rightarrow> FilterRequest" where
  "eq_fare v =
     \<lparr>req_column = ''fare'', req_operator = ''eq'', req_value = v,
      req_value2 = PyNone, req_limit = Some 1000\<rparr>"

definition in_fare :: "pyval \<Rightarrow> FilterRequest" where
  "in_fare v =
     \<lparr>req_column = ''fare'', req_operator = ''in'', req_value = v,
      req_value2 = PyNone, req_limit = Some 1000\<rparr>"

definition contains_in :: "string \<Rightarrow> pyval \<Rightarrow> FilterRequest" where
  "contains_in c v =
     \<lparr>req_column = c, req_operator = ''contains'', req_value = v,
      req_value2 = PyNone, req_limit = Some 1000\<rparr>"

section \<open>Properties of the cleaning job\<close>

lemma col_and_True_iff: "col_and a b = Some True \<longleftrightarrow> a = Some True \<and> b = Some True"
  by (cases "(a, b)" rule: col_and.cases) auto

lemma foldl_col_and_True_iff:
  "foldl col_and a bs = Some True \<longleftrightarrow> a = Some True \<and> list_all (\<lambda>b. b = Some True) bs"
  by (induction bs arbitrary: a) (auto simp: col_and_True_iff)

lemma early_cond_iff:
  "early_cond r = Some True \<longleftrightarrow>
     tpep_pickup_datetime r \<noteq> None \<and> tpep_dropoff_datetime r \<noteq> None \<and>
     (\<exists>pc. passenger_count r = Some pc \<and> 1 \<le> pc \<and> pc \<le> 8) \<and>
     (\<exists>td. trip_distance r = Some td \<and> 0 < td \<and> td < 500) \<and>
     (\<exists>fa. fare_amount r = Some fa \<and> 0 < fa \<and> fa < 1000) \<and>
     (\<exists>ta. total_amount r = Some ta \<and> 0 < ta \<and> ta < 1000) \<and>
     (\<exists>tip. tip_amount r = Some tip \<and> 0 \<le> tip) \<and>
     (\<exists>rc. RatecodeID r = Some rc \<and> rc \<in> {1..6}) \<and>
     (\<exists>pt. payment_type r = Some pt \<and> pt \<in> {1..6})"
  unfolding early_cond_def foldl_col_and_True_iff
  by (auto simp: isNotNull_def col_ge_def col_le_def col_gt_def col_lt_def isin_def lit_def
        null_lift_def split: option.splits)

lemma final_cond_iff:
  "final_cond e = Some True \<longleftrightarrow>
     (\<exists>d. trip_duration_minutes e = Some d \<and> 1 \<le> d \<and> d \<le> 480) \<and>
     (\<exists>s. speed_mph e = Some s \<and> 0 \<le> s \<and> s \<le> 80) \<and>
     (\<exists>t. tip_percentage e = Some t \<and> 0 \<le> t \<and> t \<le> 50)"
  unfolding final_cond_def foldl_col_and_True_iff
  by (auto simp: col_ge_def col_le_def lit_def null_lift_def split: option.splits)

lemma date_cond_iff:
  "date_cond F r = Some True \<longleftrightarrow>
     (\<exists>p d. tpep_pickup_datetime r = Some p \<and> tpep_dropoff_datetime r = Some d \<and> p < d \<and>
        year F p = 2018 \<and> year F d = 2018)"
  unfolding date_cond_def foldl_col_and_True_iff
  by (auto simp: isNotNull_def col_lt_def col_eq_def lit_def null_lift_def split: option.splits)

lemma enrich_fields:
  "trip_duration_minutes (enrich F r) = duration_minutes r"
  "speed_mph (enrich F r) = speed_of (duration_minutes r) (trip_distance r)"
  "tip_percentage (enrich F r) = tip_percentage_of (fare_amount r) (tip_amount r)"
  "tpep_pickup_datetime (enrich F r) = tpep_pickup_datetime r"
  "tpep_dropoff_datetime (enrich F r) = tpep_dropoff_datetime r"
  "trip_distance (enrich F r) = trip_distance r"
  "passenger_count (enrich F r) = passenger_count r"
  by (simp_all add: enrich_def trip_row.defs enriched_row.defs)

lemma with_timestamps_fields:
  "tpep_pickup_datetime (with_timestamps F r) = Option.bind (tpep_pickup_datetime r) (to_timestamp F)"
  "tpep_dropoff_datetime (with_timestamps F r) = Option.bind (tpep_dropoff_datetime r) (to_timestamp F)"
  "trip_distance (with_timestamps F r) = trip_distance r"
  "passenger_count (with_timestamps F r) = passenger_count r"
  by (simp_all add: with_timestamps_def)

lemma df_final_mem:
  "e \<in> set (df_final F df) \<longleftrightarrow>
     (\<exists>r \<in> set df. early_cond r = Some True \<and> date_cond F (with_timestamps F r) = Some True \<and>
        e = enrich F (with_timestamps F r) \<and> final_cond e = Some True)"
  by (auto simp: df_final_def df_enriched_def df_date_filtered_def df_with_timestamps_def
        df_filtered_early_def df_filter_def)

lemma duration_same_second:
  "tpep_pickup_datetime r = Some p \<Longrightarrow> tpep_dropoff_datetime r = Some d \<Longrightarrow>
   p div 1000000 = d div 1000000 \<Longrightarrow> duration_minutes r = Some 0"
  by (simp add: duration_minutes_def unix_timestamp_def col_sub_def to_double_def col_div_def
        lit_def null_lift_def)


subsection \<open>Evaluating the example\<close>

lemma example_days: "utc_days 1514800800000000 = 17532" "utc_days 1514802600000000 = 17532"
  by (simp_all add: utc_days_def)

lemma example_civil: "civil_year_month 17532 = (2018, 1)"
  by code_simp

lemma example_year [simp]:
  "year example_functions 1514800800000000 = 2018"
  "year example_functions 1514802600000000 = 2018"
  by (simp_all add: example_functions_def example_days example_civil)

lemma example_parse [simp]:
  "to_timestamp example_functions ''01/01/2018 10:00:00 AM'' = Some 1514800800000000"
  "to_timestamp example_functions ''01/01/2018 10:30:00 AM'' = Some 1514802600000000"
  by (simp_all add: example_functions_def)

lemma example_trip_parsed:
  "tpep_pickup_datetime (with_timestamps example_functions example_trip) = Some 1514800800000000"
  "tpep_dropoff_datetime (with_timestamps example_functions example_trip) = Some 1514802600000000"
  "trip_distance (with_timestamps example_functions example_trip) = Some 5"
  "fare_amount (with_timestamps example_functions example_trip) = Some 20"
  "tip_amount (with_timestamps example_functions example_trip) = Some 4"
  by (simp_all add: with_timestamps_def example_trip_def)

lemma example_trip_early: "early_cond example_trip = Some True"
  unfolding early_cond_iff by (simp add: example_trip_def)

lemma example_trip_date:
  "date_cond example_functions (with_timestamps example_functions example_trip) = Some True"
  unfolding date_cond_iff example_trip_parsed by simp

lemma example_trip_duration:
  "duration_minutes (with_timestamps example_functions example_trip) = Some 30"
  unfolding duration_minutes_def example_trip_parsed
  by (simp add: unix_timestamp_def col_sub_def to_double_def col_div_def lit_def null_lift_def)

lemma example_trip_speed:
  "speed_of (Some 30) (Some 5) = Some 10"
  by (simp add: speed_of_def when_otherwise_def col_gt_def col_div_def lit_def null_lift_def)

lemma example_trip_tip:
  "tip_percentage_of (Some 20) (Some 4) = Some 20"
  by (simp add: tip_percentage_of_def when_otherwise_def col_gt_def col_div_def col_mul_def
      lit_def null_lift_def)

lemma example_trip_final_cond:
  "final_cond (enrich example_functions (with_timestamps example_functions example_trip)) = Some True"
  unfolding final_cond_iff enrich_fields example_trip_parsed example_trip_duration
    example_trip_speed example_trip_tip
  by simp

lemma example_trip_final:
  "enrich example_functions (with_timestamps example_functions example_trip)
     \<in> set (df_final example_functions [example_trip, nine_passengers, same_instant])"
  unfolding df_final_mem
  using example_trip_early example_trip_date example_trip_final_cond
  by (intro bexI [of _ example_trip]) simp_all

lemma same_instant_parsed:
  "tpep_pickup_datetime (with_timestamps example_functions same_instant) = Some 1514800800000000"
  "tpep_dropoff_datetime (with_timestamps example_functions same_instant) = Some 1514800800000000"
  by (simp_all add: with_timestamps_def same_instant_def example_trip_def)


subsection \<open>The claims about the cleaning job\<close>

text \<open>
  Claim C8. The early validity filter keeps a raw row exactly when the pickup and dropoff
  strings, the passenger count, the trip distance and the fare are not NULL, the passenger
  count is between 1 and 8, the trip distance is strictly between 0 and 500, the fare and
  the total amount are strictly between 0 and 1000, the tip is not negative, and the rate
  code and the payment type are among 1..6. A row with passenger count 9 is dropped by this
  filter, and no row with that count is handed to the timestamp parsing step.
\<close>

theorem validity_filter_keeps_iff:
  "(r \<in> set (df_filtered_early df) \<longleftrightarrow>
      r \<in> set df \<and>
      tpep_pickup_datetime r \<noteq> None \<and> tpep_dropoff_datetime r \<noteq> None \<and>
      (\<exists>pc. passenger_count r = Some pc \<and> 1 \<le> pc \<and> pc \<le> 8) \<and>
      (\<exists>td. trip_distance r = Some td \<and> 0 < td \<and> td < 500) \<and>
      (\<exists>fa. fare_amount r = Some fa \<and> 0 < fa \<and> fa < 1000) \<and>
      (\<exists>ta. total_amount r = Some ta \<and> 0 < ta \<and> ta < 1000) \<and>
      (\<exists>tip. tip_amount r = Some tip \<and> 0 \<le> tip) \<and>
      (\<exists>rc. RatecodeID r = Some rc \<and> rc \<in> {1..6}) \<and>
      (\<exists>pt. payment_type r = Some pt \<and> pt \<in> {1..6})) \<and>
   (passenger_count r = Some 9 \<longrightarrow>
      r \<notin> set (df_filtered_early df) \<and>
      with_timestamps F r \<notin> set (df_with_timestamps F df))"
proof -
  have keep: "r \<in> set (df_filtered_early df) \<longleftrightarrow> r \<in> set df \<and> early_cond r = Some True"
    by (simp add: df_filtered_early_def df_filter_def)
  have nine: "with_timestamps F r \<notin> set (df_with_timestamps F df)"
    if "passenger_count r = Some 9"
  proof
    assume "with_timestamps F r \<in> set (df_with_timestamps F df)"
    then obtain r' where r': "r' \<in> set (df_filtered_early df)"
      and eq: "with_timestamps F r = with_timestamps F r'"
      by (auto simp: df_with_timestamps_def)
    from eq have "passenger_count r' = passenger_count r"
      by (metis with_timestamps_fields(4))
    moreover from r' have "early_cond r' = Some True"
      by (simp add: df_filtered_early_def df_filter_def)
    ultimately show False
      using that by (auto simp: early_cond_iff)
  qed
  show ?thesis
    unfolding keep early_cond_iff using nine by auto
qed

theorem validity_filter_keeps_iff_witness:
  "passenger_count nine_passengers = Some 9 \<and>
   nine_passengers \<notin> set (df_filtered_early [example_trip, nine_passengers, same_instant]) \<and>
   with_timestamps example_functions nine_passengers
     \<notin> set (df_with_timestamps example_functions [example_trip, nine_passengers, same_instant]) \<and>
   example_trip \<in> set (df_filtered_early [example_trip, nine_passengers, same_instant])"
  using validity_filter_keeps_iff [of nine_passengers "[example_trip, nine_passengers, same_instant]"
      example_functions]
    validity_filter_keeps_iff [of example_trip "[example_trip, nine_passengers, same_instant]"
      example_functions]
  by (simp add: nine_passengers_def example_trip_def)

text \<open>
  Claim C9. Every row of the final output has a trip duration between 1 and 480 minutes,
  a speed between 0 and 80 and a tip percentage between 0 and 50. A row whose derived
  duration is 0 is rejected by the condition of the final filter; this is what the
  derivation computes when pickup and dropoff are the same instant.
\<close>

theorem final_output_ranges:
  "(e \<in> set (df_final F df) \<longrightarrow>
      (\<exists>d. trip_duration_minutes e = Some d \<and> 1 \<le> d \<and> d \<le> 480) \<and>
      (\<exists>s. speed_mph e = Some s \<and> 0 \<le> s \<and> s \<le> 80) \<and>
      (\<exists>t. tip_percentage e = Some t \<and> 0 \<le> t \<and> t \<le> 50)) \<and>
   (trip_duration_minutes e' = Some 0 \<longrightarrow>
      final_cond e' \<noteq> Some True \<and> e' \<notin> set (df_final F df)) \<and>
   (tpep_pickup_datetime r \<noteq> None \<and> tpep_dropoff_datetime r = tpep_pickup_datetime r \<longrightarrow>
      trip_duration_minutes (enrich F r) = Some 0 \<and>
      final_cond (enrich F r) \<noteq> Some True \<and>
      enrich F r \<notin> set (df_final F df))"
proof -
  have mem: "final_cond x = Some True" if "x \<in> set (df_final F df)" for x
    using that by (simp add: df_final_def df_filter_def)
  have zero: "final_cond x \<noteq> Some True" if "trip_duration_minutes x = Some 0" for x
    using that by (simp add: final_cond_iff)
  have same: "trip_duration_minutes (enrich F r) = Some 0"
    if "tpep_pickup_datetime r \<noteq> None" "tpep_dropoff_datetime r = tpep_pickup_datetime r"
    using that by (auto simp: enrich_fields intro: duration_same_second)
  show ?thesis
    using mem [of e] mem [of e'] mem [of "enrich F r"] zero [of e'] zero [of "enrich F r"] same
    by (auto simp: final_cond_iff)
qed


theorem final_output_ranges_witness:
  "enrich example_functions (with_timestamps example_functions example_trip)
     \<in> set (df_final example_functions [example_trip, nine_passengers, same_instant]) \<and>
   (\<exists>d. trip_duration_minutes (enrich example_functions (with_timestamps example_functions example_trip)) = Some d
      \<and> 1 \<le> d \<and> d \<le> 480) \<and>
   (\<exists>s. speed_mph (enrich example_functions (with_timestamps example_functions example_trip)) = Some s
      \<and> 0 \<le> s \<and> s \<le> 80) \<and>
   (\<exists>t. tip_percentage (enrich example_functions (with_timestamps example_functions example_trip)) = Some t
      \<and> 0 \<le> t \<and> t \<le> 50) \<and>
   tpep_pickup_datetime (with_timestamps example_functions same_instant) \<noteq> None \<and>
   tpep_dropoff_datetime (with_timestamps example_functions same_instant)
     = tpep_pickup_datetime (with_timestamps example_functions same_instant) \<and>
   trip_duration_minutes (enrich example_functions (with_timestamps example_functions same_instant)) = Some 0 \<and>
   final_cond (enrich example_functions (with_timestamps example_functions same_instant)) \<noteq> Some True \<and>
   enrich example_functions (with_timestamps example_functions same_instant)
     \<notin> set (df_final example_functions [example_trip, nine_passengers, same_instant])"
  using final_output_ranges [of
      "enrich example_functions (with_timestamps example_functions example_trip)"
      example_functions "[example_trip, nine_passengers, same_instant]"
      "enrich example_functions (with_timestamps example_functions same_instant)"
      "with_timestamps example_functions same_instant"]
    example_trip_final same_instant_parsed
  by simp

text \<open>
  Claim C10. Every row of the final output has a pickup timestamp strictly before its
  dropoff timestamp and a positive trip duration, the condition of the \<open>when\<close> that
  guards the speed is TRUE for it, and its speed is the distance divided by the duration
  in hours.
\<close>

theorem final_output_speed_branch:
  "e \<in> set (df_final F df) \<Longrightarrow>
     \<exists>p d dur dst.
        tpep_pickup_datetime e = Some p \<and> tpep_dropoff_datetime e = Some d \<and> p < d \<and>
        trip_duration_minutes e = Some dur \<and> 0 < dur \<and>
        trip_distance e = Some dst \<and>
        col_gt (trip_duration_minutes e) (lit 0) = Some True \<and>
        speed_mph e = Some (dst / (dur / 60))"
proof -
  assume "e \<in> set (df_final F df)"
  then obtain r where early: "early_cond r = Some True"
    and date: "date_cond F (with_timestamps F r) = Some True"
    and e: "e = enrich F (with_timestamps F r)"
    and final: "final_cond e = Some True"
    by (auto simp: df_final_mem)
  from date obtain p d where pd: "tpep_pickup_datetime e = Some p"
    "tpep_dropoff_datetime e = Some d" "p < d"
    unfolding date_cond_iff e enrich_fields by blast
  from final obtain dur where dur: "trip_duration_minutes e = Some dur" "1 \<le> dur"
    unfolding final_cond_iff by blast
  from early obtain dst where dst: "trip_distance e = Some dst"
    unfolding early_cond_iff e enrich_fields with_timestamps_fields by blast
  have cond: "col_gt (trip_duration_minutes e) (lit 0) = Some True"
    using dur by (simp add: col_gt_def lit_def null_lift_def)
  have "speed_mph e = speed_of (trip_duration_minutes e) (trip_distance e)"
    by (simp add: e enrich_fields)
  also have "\<dots> = Some (dst / (dur / 60))"
    using dur dst by (simp add: speed_of_def when_otherwise_def col_gt_def col_div_def
        lit_def null_lift_def)
  finally have "speed_mph e = Some (dst / (dur / 60))" .
  with pd dur dst cond show ?thesis by auto
qed

theorem final_output_speed_branch_witness:
  "enrich example_functions (with_timestamps example_functions example_trip)
     \<in> set (df_final example_functions [example_trip, nine_passengers, same_instant]) \<and>
   (\<exists>p d dur dst.
      tpep_pickup_datetime (enrich example_functions (with_timestamps example_functions example_trip)) = Some p \<and>
      tpep_dropoff_datetime (enrich example_functions (with_timestamps example_functions example_trip)) = Some d \<and>
      p < d \<and>
      trip_duration_minutes (enrich example_functions (with_timestamps example_functions example_trip)) = Some dur \<and>
      0 < dur \<and>
      trip_distance (enrich example_functions (with_timestamps example_functions example_trip)) = Some dst \<and>
      col_gt (trip_duration_minutes (enrich example_functions (with_timestamps example_functions example_trip))) (lit 0) = Some True \<and>
      speed_mph (enrich example_functions (with_timestamps example_functions example_trip)) = Some (dst / (dur / 60)))"
  using final_output_speed_branch [OF example_trip_final] example_trip_final by blast

section \<open>Properties of the consolidation job\<close>

lemma map_of_filter_other:
  "m \<noteq> n \<Longrightarrow> map_of (filter (\<lambda>c. fst c \<noteq> n) xs) m = map_of xs m"
  by (induction xs) auto

lemma first_rows_rmtree: "m \<noteq> n \<Longrightarrow> first_rows (rmtree n d) m = first_rows d m"
  by (simp add: first_rows_def glob_parquet_def rmtree_def map_of_filter_other)

lemma process_chunks_step:
  "process_chunks (n # ns) (d, acc) =
     process_chunks ns (if chunk_deleted d n then rmtree n d else d,
                        acc @ (case first_rows d n of None \<Rightarrow> [] | Some df \<Rightarrow> [df]))"
  by (auto simp: chunk_deleted_def first_rows_def split: list.splits option.splits)

lemma chunk_deleted_rmtree: "m \<noteq> n \<Longrightarrow> chunk_deleted (rmtree n d) m = chunk_deleted d m"
  by (simp add: chunk_deleted_def first_rows_rmtree) (simp add: rmtree_def)

lemma map_filter_cong_set:
  "(\<And>x. x \<in> set xs \<Longrightarrow> f x = g x) \<Longrightarrow> List.map_filter f xs = List.map_filter g xs"
  by (induction xs) (auto simp: List.map_filter_simps split: option.splits)

lemma process_chunks_spec:
  "distinct ns \<Longrightarrow> process_chunks ns (d, acc) = (d', acc') \<Longrightarrow>
     acc' = acc @ List.map_filter (first_rows d) ns \<and>
     chunk_entries d' = filter (\<lambda>c. \<not> (fst c \<in> set ns \<and> chunk_deleted d (fst c))) (chunk_entries d) \<and>
     other_entries d' = other_entries d \<and> root_exists d' = root_exists d \<and>
     written d' = written d \<and> rmtree_ok d' = rmtree_ok d \<and> to_parquet_ok d' = to_parquet_ok d"
proof (induction ns arbitrary: d acc)
  case Nil
  then show ?case by (simp add: List.map_filter_simps)
next
  case (Cons n ns)
  define d1 where "d1 = (if chunk_deleted d n then rmtree n d else d)"
  define acc1 where "acc1 = acc @ (case first_rows d n of None \<Rightarrow> [] | Some df \<Rightarrow> [df])"
  from Cons.prems have dist: "distinct ns" and notin: "n \<notin> set ns" by auto
  from Cons.prems(2) have run: "process_chunks ns (d1, acc1) = (d', acc')"
    by (simp only: process_chunks_step d1_def acc1_def)
  note ih = Cons.IH [OF dist run]
  have same_rows: "first_rows d1 m = first_rows d m" if "m \<in> set ns" for m
  proof -
    from that notin have "m \<noteq> n" by auto
    then show ?thesis by (simp add: d1_def first_rows_rmtree)
  qed
  have same_del: "chunk_deleted d1 m = chunk_deleted d m" if "m \<in> set ns" for m
  proof -
    from that notin have "m \<noteq> n" by auto
    then show ?thesis by (simp add: d1_def chunk_deleted_rmtree)
  qed
  have acc: "acc' = acc @ List.map_filter (first_rows d) (n # ns)"
    using ih map_filter_cong_set [of ns "first_rows d1" "first_rows d", OF same_rows]
    by (simp add: acc1_def List.map_filter_simps split: option.splits)
  have "chunk_entries d' =
      filter (\<lambda>c. \<not> (fst c \<in> set ns \<and> chunk_deleted d (fst c))) (chunk_entries d1)"
    using ih same_del by (metis (mono_tags, lifting) filter_cong)
  also have "\<dots> = filter (\<lambda>c. \<not> (fst c \<in> set (n # ns) \<and> chunk_deleted d (fst c))) (chunk_entries d)"
    by (auto simp: d1_def rmtree_def intro: filter_cong)
  finally have entries: "chunk_entries d' =
      filter (\<lambda>c. \<not> (fst c \<in> set (n # ns) \<and> chunk_deleted d (fst c))) (chunk_entries d)" .
  have rest: "other_entries d' = other_entries d \<and> root_exists d' = root_exists d \<and>
     written d' = written d \<and> rmtree_ok d' = rmtree_ok d \<and> to_parquet_ok d' = to_parquet_ok d"
    using ih by (simp add: d1_def rmtree_def)
  from acc entries rest show ?case by blast
qed


lemma single_file_readable:
  assumes "single_file_chunks d"
  shows "readable_files d n = (case first_rows d n of None \<Rightarrow> [] | Some rows \<Rightarrow> [rows])"
proof (cases "map_of (chunk_entries d) n")
  case None
  then show ?thesis
    by (simp add: readable_files_def first_rows_def glob_parquet_def List.map_filter_simps)
next
  case (Some fs)
  then have "(n, fs) \<in> set (chunk_entries d)" by (rule map_of_SomeD)
  with assms have "length fs \<le> 1"
    by (auto simp: single_file_chunks_def list_all_iff)
  then consider "fs = []" | f where "fs = [f]"
    by (cases fs) auto
  then show ?thesis
    using Some
    by cases (auto simp: readable_files_def first_rows_def glob_parquet_def
        List.map_filter_simps split: option.splits)
qed

lemma single_file_all_read:
  assumes "single_file_chunks d"
  shows "List.map_filter (first_rows d) ns = concat (map (readable_files d) ns)"
  by (induction ns)
    (auto simp: List.map_filter_simps single_file_readable [OF assms] split: option.splits)

lemma single_file_deleted:
  assumes "single_file_chunks d"
  shows "chunk_deleted d n \<longleftrightarrow> readable_files d n \<noteq> [] \<and> rmtree_ok d n"
  by (auto simp: chunk_deleted_def single_file_readable [OF assms] split: option.splits)

lemma example_disk_sorted:
  "sort (map fst (chunk_entries example_disk))
     = [''out/chunk_0'', ''out/chunk_1'', ''out/chunk_2'', ''out/chunk_3'']"
  by (simp add: example_disk_def)

lemma example_disk_files:
  "readable_files example_disk ''out/chunk_0'' = [[1, 2]]"
  "readable_files example_disk ''out/chunk_1'' = [[3]]"
  "readable_files example_disk ''out/chunk_2'' = []"
  "readable_files example_disk ''out/chunk_3'' = []"
  by (simp_all add: readable_files_def glob_parquet_def example_disk_def List.map_filter_simps)

lemma example_disk_read: "chunk_files example_disk = [[1, 2], [3]]"
  by (simp add: chunk_files_def example_disk_sorted example_disk_files)

lemma example_disk_left:
  "filter (\<lambda>c. \<not> (readable_files example_disk (fst c) \<noteq> [] \<and> rmtree_ok example_disk (fst c)))
     (chunk_entries example_disk)
     = [(''out/chunk_2'', []), (''out/chunk_3'', [(''out/chunk_3/part-0.parquet'', None)])]"
  by (simp add: readable_files_def glob_parquet_def example_disk_def List.map_filter_simps)

subsection \<open>The claim about the consolidation job\<close>

text \<open>
  Claim C5, as stated: the job deletes the source chunks only on success. It does not:
  with one readable chunk and a consolidated file that cannot be written, the job
  returns \<open>None\<close>, nothing is written, and the chunk folder is gone.
\<close>

theorem consolidate_deletes_before_write_counterexample:
  "fst (consolidate_chunks_and_cleanup (Some ''out'') failing_disk) = None \<and>
   chunk_entries failing_disk = [(''out/chunk_0'', [(''out/chunk_0/part-0.parquet'', Some [1, 2])])] \<and>
   chunk_entries (snd (consolidate_chunks_and_cleanup (Some ''out'') failing_disk)) = [] \<and>
   written (snd (consolidate_chunks_and_cleanup (Some ''out'') failing_disk)) = Map.empty"
  by (simp add: consolidate_chunks_and_cleanup_def failing_disk_def glob_parquet_def rmtree_def)

text \<open>
  Claim C5, amended. For a non-empty \<open>PARQUET_PATH\<close> and chunk folders of distinct
  names that hold at most one parquet file each: the job merges the chunk files, all
  those that can be read, into exactly one consolidated file, at \<open>PARQUET_PATH\<close>
  followed by \<open>_consolidated.parquet\<close>, with the rows in the sorted order of the folder
  names, and returns that path, provided that a chunk file was read and that the write
  succeeds; otherwise it returns \<open>None\<close> and has written no file. A chunk folder is
  deleted as soon as its file has been read, if \<open>rmtree\<close> succeeds on it: before
  anything is written, and whether or not the job succeeds afterwards.
\<close>

theorem consolidate_merges_single_file_chunks:
  assumes "p \<noteq> []" and "distinct (map fst (chunk_entries d))" and "single_file_chunks d"
    and "consolidate_chunks_and_cleanup (Some p) d = (res, d')"
  shows "chunk_entries d' =
      filter (\<lambda>c. \<not> (readable_files d (fst c) \<noteq> [] \<and> rmtree_ok d (fst c))) (chunk_entries d) \<and>
    (res \<noteq> None \<longleftrightarrow> chunk_files d \<noteq> [] \<and> to_parquet_ok d (p @ ''_consolidated.parquet'')) \<and>
    (res \<noteq> None \<longrightarrow>
       res = Some (p @ ''_consolidated.parquet'') \<and>
       written d' = (written d)(p @ ''_consolidated.parquet'' \<mapsto> concat (chunk_files d))) \<and>
    (res = None \<longrightarrow> written d' = written d)"
proof (cases "chunk_entries d = []")
  case True
  with assms show ?thesis
    by (simp add: consolidate_chunks_and_cleanup_def chunk_files_def)
next
  case False
  obtain d1 all_data where run:
    "process_chunks (sort (map fst (chunk_entries d))) (d, []) = (d1, all_data)"
    by (cases "process_chunks (sort (map fst (chunk_entries d))) (d, [])") auto
  from assms(2) have "distinct (sort (map fst (chunk_entries d)))" by simp
  note raw = process_chunks_spec [OF this run]
  have "filter (\<lambda>c. \<not> (fst c \<in> set (sort (map fst (chunk_entries d))) \<and> chunk_deleted d (fst c)))
          (chunk_entries d)
        = filter (\<lambda>c. \<not> (readable_files d (fst c) \<noteq> [] \<and> rmtree_ok d (fst c))) (chunk_entries d)"
    by (rule filter_cong) (auto simp: single_file_deleted [OF assms(3)])
  with raw have spec: "all_data = chunk_files d"
    "chunk_entries d1 =
       filter (\<lambda>c. \<not> (readable_files d (fst c) \<noteq> [] \<and> rmtree_ok d (fst c))) (chunk_entries d)"
    "written d1 = written d" "to_parquet_ok d1 = to_parquet_ok d"
    by (simp_all add: chunk_files_def single_file_all_read [OF assms(3)])
  from assms(1,4) False run have res:
    "(res, d') =
       (if all_data = [] then (None, d1)
        else if to_parquet_ok d1 (p @ ''_consolidated.parquet'')
        then (Some (p @ ''_consolidated.parquet''),
              remove_root_if_empty (to_parquet p (p @ ''_consolidated.parquet'') (concat all_data) d1))
        else (None, d1))"
    by (simp add: consolidate_chunks_and_cleanup_def)
  show ?thesis
    using res spec by (auto simp: remove_root_if_empty_def to_parquet_def split: if_splits)
qed

theorem consolidate_merges_single_file_chunks_witness:
  "fst (consolidate_chunks_and_cleanup (Some ''out'') example_disk)
     = Some ''out_consolidated.parquet'' \<and>
   chunk_entries (snd (consolidate_chunks_and_cleanup (Some ''out'') example_disk))
     = [(''out/chunk_2'', []), (''out/chunk_3'', [(''out/chunk_3/part-0.parquet'', None)])] \<and>
   written (snd (consolidate_chunks_and_cleanup (Some ''out'') example_disk))
     = [''out_consolidated.parquet'' \<mapsto> [1, 2, 3]]"
proof -
  have p: "''out'' \<noteq> []" by simp
  have d: "distinct (map fst (chunk_entries example_disk))"
    by (simp add: example_disk_def)
  have s: "single_file_chunks example_disk"
    by (simp add: single_file_chunks_def example_disk_def)
  have ok: "to_parquet_ok example_disk (''out'' @ ''_consolidated.parquet'')"
    "written example_disk = Map.empty"
    by (simp_all add: example_disk_def)
  from consolidate_merges_single_file_chunks [OF p d s prod.collapse [symmetric]]
  show ?thesis
    unfolding example_disk_read example_disk_left using ok by auto
qed

text \<open>
  A chunk folder with several parquet files is outside the amended claim. There the
  loop reads the first file only (line 46) and removes the whole folder (line 56): the
  rows of the second file are neither in the consolidated file nor on the disk.
\<close>

lemma second_file_of_a_chunk_is_lost:
  "fst (consolidate_chunks_and_cleanup (Some ''out'') two_file_disk)
     = Some ''out_consolidated.parquet'' \<and>
   chunk_files two_file_disk = [[1, 2], [9]] \<and>
   chunk_entries (snd (consolidate_chunks_and_cleanup (Some ''out'') two_file_disk)) = [] \<and>
   written (snd (consolidate_chunks_and_cleanup (Some ''out'') two_file_disk))
     = [''out_consolidated.parquet'' \<mapsto> [1, 2]]"
  by (simp add: consolidate_chunks_and_cleanup_def two_file_disk_def glob_parquet_def rmtree_def
      remove_root_if_empty_def to_parquet_def chunk_files_def readable_files_def
      List.map_filter_simps)

section \<open>Properties of the query API\<close>

subsection \<open>Masks and frames\<close>

lemma series_compare_length:
  "series_compare op s v = Inr m \<Longrightarrow> length m = series_len s"
  by (auto simp: series_compare_def scalar_compare_def compare_object_def invalid_comparison_def
        series_len_def split: pyval.splits series.splits scalar.splits if_splits)

lemma pick_Nil [simp]: "pick [] xs = []" "pick m [] = []"
  by (simp_all add: pick_def)

lemma pick_Cons [simp]: "pick (b # m) (x # xs) = (if b then x # pick m xs else pick m xs)"
  by (simp add: pick_def)

lemma set_pick_subset: "set (pick m xs) \<subseteq> set xs"
  by (auto simp: pick_def dest: set_zip_rightD)

lemma mem_pick_iff:
  "distinct xs \<Longrightarrow> length m = length xs \<Longrightarrow> k < length xs \<Longrightarrow>
     xs ! k \<in> set (pick m xs) \<longleftrightarrow> m ! k"
proof (induction xs arbitrary: m k)
  case Nil
  then show ?case by simp
next
  case (Cons x xs)
  then obtain b m' where m: "m = b # m'" by (cases m) auto
  show ?case
  proof (cases k)
    case 0
    with Cons.prems m set_pick_subset [of m' xs] show ?thesis by auto
  next
    case (Suc j)
    with Cons.prems m have "xs ! j \<in> set (pick m' xs) \<longleftrightarrow> m' ! j"
      by (intro Cons.IH) auto
    moreover from Cons.prems Suc have "xs ! j \<noteq> x" by auto
    ultimately show ?thesis using m Suc by auto
  qed
qed

lemma both_masks:
  assumes "distinct xs" "length m1 = length xs" "length m2 = length xs"
  shows "map (\<lambda>i. i \<in> set (pick m1 xs) \<and> i \<in> set (pick m2 xs)) xs = map2 (\<and>) m1 m2"
proof (rule nth_equalityI)
  show "length (map (\<lambda>i. i \<in> set (pick m1 xs) \<and> i \<in> set (pick m2 xs)) xs) = length (map2 (\<and>) m1 m2)"
    using assms by simp
next
  fix k assume "k < length (map (\<lambda>i. i \<in> set (pick m1 xs) \<and> i \<in> set (pick m2 xs)) xs)"
  then have k: "k < length xs" by simp
  with assms show "map (\<lambda>i. i \<in> set (pick m1 xs) \<and> i \<in> set (pick m2 xs)) xs ! k = map2 (\<and>) m1 m2 ! k"
    by (simp add: mem_pick_iff)
qed

lemma index_df_mask [simp]: "index (df_mask df m) = pick m (index df)"
  by (simp add: df_mask_def)

lemma wf_frame_col:
  "wf_frame df \<Longrightarrow> map_of (data df) c = Some col \<Longrightarrow> series_len col = length (index df)"
  by (auto simp: wf_frame_def list_all_iff dest!: map_of_SomeD)

lemma index_head: "index (head n df) = take (head_count n (length (index df))) (index df)"
  by (simp add: head_def Let_def)


subsection \<open>The branches of \<open>apply_filter\<close>\<close>

lemma select_rows_between:
  assumes "map_of (data df) (req_column req) = Some col"
    and "lower (req_operator req) = ''between''"
  shows "select_rows df req =
     (if req_value2 req = PyNone then Inl BetweenRequiresValue2
      else bind_exn (series_compare Ge col (req_value req)) (\<lambda>m1.
           bind_exn (series_compare Le col (req_value2 req)) (\<lambda>m2.
             Inr (df_mask df (map2 (\<and>) m1 m2)))))"
  using assms by (simp add: select_rows_def Let_def)

lemma select_rows_gte:
  assumes "map_of (data df) (req_column req) = Some col"
    and "lower (req_operator req) = ''gte''"
  shows "select_rows df req =
     bind_exn (series_compare Ge col (req_value req)) (\<lambda>m. Inr (df_mask df m))"
  using assms by (simp add: select_rows_def Let_def)

lemma select_rows_lte:
  assumes "map_of (data df) (req_column req) = Some col"
    and "lower (req_operator req) = ''lte''"
  shows "select_rows df req =
     bind_exn (series_compare Le col (req_value req)) (\<lambda>m. Inr (df_mask df m))"
  using assms by (simp add: select_rows_def Let_def)

lemma lower_literals [simp]: "lower ''gte'' = ''gte''" "lower ''lte'' = ''lte''"
  by (simp_all add: lower_def char_lower_def)

lemma map2_conj_same:
  "map2 (\<and>) (map f xs) (map g xs) = map (\<lambda>x. f x \<and> g x) xs"
  by (induction xs) auto

text \<open>The masks of \<open>>=\<close> and \<open><=\<close>, for each dtype and every bound it can be ordered with.\<close>

lemma compare_Int64_number:
  assumes "num_of a = Some r" and "rounding_free (Int64 xs) a"
  shows "scalar_compare Ge (Int64 xs) a = Inr (map (\<lambda>x. r \<le> real_of_int x) xs)"
    and "scalar_compare Le (Int64 xs) a = Inr (map (\<lambda>x. real_of_int x \<le> r) xs)"
  using assms by (cases a; auto simp: scalar_compare_def compare_def num_of_def)+

lemma compare_Float64_number:
  assumes "num_of a = Some r" and "rounding_free (Float64 ys) a"
  shows "scalar_compare Ge (Float64 ys) a
           = Inr (map (\<lambda>c. case c of None \<Rightarrow> False | Some x \<Rightarrow> r \<le> x) ys)"
    and "scalar_compare Le (Float64 ys) a
           = Inr (map (\<lambda>c. case c of None \<Rightarrow> False | Some x \<Rightarrow> x \<le> r) ys)"
  using assms by (cases a; auto simp: scalar_compare_def compare_def num_of_def)+

lemma compare_Object_string:
  shows "scalar_compare Ge (Object zs) (PyStr s)
           = Inr (map (\<lambda>c. case c of None \<Rightarrow> False | Some z \<Rightarrow> s \<le> z) zs)"
    and "scalar_compare Le (Object zs) (PyStr s)
           = Inr (map (\<lambda>c. case c of None \<Rightarrow> False | Some z \<Rightarrow> z \<le> s) zs)"
  by (simp_all add: scalar_compare_def compare_object_def compare_def)

lemma conj_option_cases:
  "map (\<lambda>c. (case c of None \<Rightarrow> False | Some x \<Rightarrow> P x) \<and> (case c of None \<Rightarrow> False | Some x \<Rightarrow> Q x)) ys
     = map (\<lambda>c. case c of None \<Rightarrow> False | Some x \<Rightarrow> P x \<and> Q x) ys"
  by (rule map_cong) (auto split: option.splits)

text \<open>
  A bound that cannot be ordered with the cells makes the filter fail: pandas raises
  \<open>TypeError\<close>, which leaves \<open>apply_filter\<close> with status 400.
\<close>

lemma between_number_column_string_bound:
  assumes "map_of (data df) (req_column req) = Some col"
    and "lower (req_operator req) = ''between''"
    and "\<forall>zs. col \<noteq> Object zs" and "req_value req = Scalar (PyStr s)" and "req_value2 req \<noteq> PyNone"
  shows "apply_filter df req = Inl (HTTPException 400 ''Erro no filtro'' InvalidComparison)"
  using assms
  by (cases col)
    (simp_all add: apply_filter_def select_rows_between series_compare_def scalar_compare_def
      invalid_comparison_def bind_exn_def)

lemma lower_ops [simp]:
  "lower ''gt'' = ''gt''" "lower ''eq'' = ''eq''" "lower ''in'' = ''in''"
  "lower ''contains'' = ''contains''"
  by (simp_all add: lower_def char_lower_def)

lemma lower_between [simp]: "lower ''between'' = ''between''"
  by (simp add: lower_def char_lower_def)

text \<open>
  What \<open>apply_filter\<close> returns is a prefix of the rows it selected, which are rows of
  the frame in their order.
\<close>

lemma apply_filter_prefix:
  "apply_filter df req = Inr r \<Longrightarrow>
     \<exists>full k. select_rows df req = Inr full \<and> index r = take k (index full)"
proof -
  assume a: "apply_filter df req = Inr r"
  then obtain full where full: "select_rows df req = Inr full"
    and r: "r = apply_limit (req_limit req) full"
    by (auto simp: apply_filter_def split: sum.splits)
  have "\<exists>k. index (apply_limit lim full) = take k (index full)" for lim
  proof (cases lim)
    case None
    then have "index (apply_limit lim full) = take (length (index full)) (index full)"
      by (simp add: apply_limit_def)
    then show ?thesis ..
  next
    case (Some n)
    then show ?thesis
      by (cases "n = 0") (auto simp: apply_limit_def index_head intro: exI [of _ "length (index full)"])
  qed
  with full r show ?thesis by auto
qed

lemma isin_order_irrelevant:
  "set vs = set ws \<Longrightarrow> series_isin s (PyList vs) = series_isin s (PyList ws)"
  by (simp add: series_isin_def isin_exact_def list_ex_iff list_all_iff split: series.splits)

lemma in_filter_order_irrelevant:
  "set vs = set ws \<Longrightarrow>
     apply_filter df (req\<lparr>req_operator := ''in'', req_value := PyList vs\<rparr>)
       = apply_filter df (req\<lparr>req_operator := ''in'', req_value := PyList ws\<rparr>)"
  by (auto simp: apply_filter_def select_rows_def Let_def isin_order_irrelevant [of vs ws]
      split: option.splits sum.splits)

subsection \<open>Evaluating the examples\<close>

lemma fares_fare: "map_of (data fares) ''fare'' = Some (Int64 [10, 20, 12])"
  by (simp add: fares_def)

lemma fares_wf: "wf_frame fares" "distinct (index fares)"
  by (simp_all add: wf_frame_def fares_def series_len_def)

lemma fares_flag: "map_of (data fares) ''flag'' = Some (Object [Some ''N'', None, Some ''Y''])"
  by (simp add: fares_def)

lemma str_int_examples:
  "str_int 10 = ''10''" "str_int 20 = ''20''" "str_int 12 = ''12''" "str_int 1 = ''1''"
  by code_simp+

lemma lower_examples:
  "lower ''1'' = ''1''" "lower ''10'' = ''10''" "lower ''20'' = ''20''" "lower ''12'' = ''12''"
  "lower ''n'' = ''n''" "lower ''N'' = ''n''" "lower ''Y'' = ''y''" "lower ''None'' = ''none''"
  by code_simp+

lemma fares_gte_10:
  "apply_filter fares (between_10_15\<lparr>req_operator := ''gte''\<rparr>) = Inr fares"
  by (simp add: apply_filter_def select_rows_def Let_def fares_fare between_10_15_def
      series_compare_def scalar_compare_def compare_def bind_exn_def apply_limit_def)
    (simp add: df_mask_def fares_def series_pick_def)

lemma fares_lte_15:
  "apply_filter fares (between_10_15\<lparr>req_operator := ''lte'', req_value := req_value2 between_10_15\<rparr>)
     = Inr (df_mask fares [True, False, True])"
  by (simp add: apply_filter_def select_rows_def Let_def fares_fare between_10_15_def
      series_compare_def scalar_compare_def compare_def bind_exn_def apply_limit_def)

lemma fares_both_masks:
  "map (\<lambda>i. i \<in> set (index fares) \<and> i \<in> set (pick [True, False, True] (index fares))) (index fares)
     = [True, False, True]"
  by (simp add: fares_def)

lemma example_load:
  "load_parquet_data example_settings example_storage fresh =
     (Inr fares,
      \<lparr>DATA_CACHE = [''main_df'' \<mapsto> fares],
       io_log = [IsDir ''data/processed/taxi_clean.parquet'',
                 Exists ''data/processed/taxi_clean.parquet'',
                 IsDir ''data/processed'', Glob ''data/processed'',
                 ReadParquet ''data/processed'']\<rparr>)"
  by (simp add: load_parquet_data_def find_parquet_def example_settings_def example_storage_def
      fresh_def)

lemma fares_gt_0: "select_rows fares gt_0_limit_2 = Inr fares"
  by (simp add: select_rows_def Let_def fares_fare gt_0_limit_2_def
      series_compare_def scalar_compare_def compare_def bind_exn_def)
    (simp add: df_mask_def fares_def series_pick_def)

lemma head_2_fares:
  "head 2 fares =
     \<lparr>index = [0, 1],
      data = [(''fare'', Int64 [10, 20]),
              (''trip_distance'', Float64 [Some 2, Some 4]),
              (''flag'', Object [Some ''N'', None])]\<rparr>"
  by (simp add: head_def head_count_def fares_def series_take_def)

lemma example_l427:
  "load_parquet_data_l427 example_settings example_storage st =
     (Inr fares, st\<lparr>io_log := io_log st @
        [IsDir ''data/processed/taxi_clean.parquet'', Glob ''data/processed'',
         ReadParquet ''data/processed/part-0.parquet'']\<rparr>)"
  by (simp add: load_parquet_data_l427_def example_settings_def example_storage_def)

lemma digits_only_examples:
  "digits_only ''10'' = Some 10" "digits_only ''20'' = Some 20" "digits_only ''abc'' = None"
  by (simp_all add: digits_only_def)


subsection \<open>The two loaders\<close>

text \<open>
  The loader of line 39 reads storage until a call succeeds; from then on every call
  returns the cached frame and leaves the process, its I/O trace included, as it is.
\<close>

lemma load_cached:
  "DATA_CACHE st ''main_df'' = Some df \<Longrightarrow> load_parquet_data cfg fs st = (Inr df, st)"
  by (simp add: load_parquet_data_def)

lemma load_success_caches:
  "load_parquet_data cfg fs st = (Inr df, st') \<Longrightarrow> DATA_CACHE st' ''main_df'' = Some df"
  by (auto simp: load_parquet_data_def split: option.splits prod.splits)

lemma load_failure_keeps_cache:
  "load_parquet_data cfg fs st = (Inl e, st') \<Longrightarrow> DATA_CACHE st' = DATA_CACHE st"
  by (auto simp: load_parquet_data_def split: option.splits prod.splits)

lemma run_calls_cached:
  "DATA_CACHE st ''main_df'' = Some df \<Longrightarrow>
     run_calls (load_parquet_data cfg) fss st = (replicate (length fss) (Inr df), st)"
  by (induction fss) (simp_all add: load_cached)

lemma load_once:
  "load_parquet_data cfg fs st = (Inr df, st') \<Longrightarrow>
     run_calls (load_parquet_data cfg) fss st' = (replicate (length fss) (Inr df), st')"
  by (rule run_calls_cached) (rule load_success_caches)

lemma l427_always_reads:
  "load_parquet_data_l427 cfg fs st = (Inr df, st') \<Longrightarrow>
     \<exists>p before. io_log st' = io_log st @ before @ [ReadParquet p] \<and> DATA_CACHE st' = DATA_CACHE st"
  by (auto simp: load_parquet_data_l427_def split: if_splits option.splits list.splits)

text \<open>
  Claim C1. Only the first successful call of the data-loading operation reads storage.
  This holds for the definition of line 39 (\<open>load_once\<close>). The definition of line 427,
  which replaces it when the module body has run, has no cache: two calls in a row on
  the example storage both succeed, and each of them globs the directory and reads the
  parquet file.
\<close>

theorem second_definition_reads_on_every_call:
  "run_calls (load_parquet_data_l427 example_settings) [example_storage, example_storage] fresh =
     ([Inr fares, Inr fares],
      \<lparr>DATA_CACHE = Map.empty,
       io_log = [IsDir ''data/processed/taxi_clean.parquet'', Glob ''data/processed'',
                 ReadParquet ''data/processed/part-0.parquet'',
                 IsDir ''data/processed/taxi_clean.parquet'', Glob ''data/processed'',
                 ReadParquet ''data/processed/part-0.parquet'']\<rparr>)"
  by (simp add: example_l427 fresh_def)

subsection \<open>The filters\<close>

text \<open>
  Claim C2. The reported match count is the number of matching rows before the limit is
  applied. In \<open>POST /filter\<close> it is not: \<open>apply_filter\<close> has already cut the frame
  when \<open>filter_data\<close> takes its length. With three rows above 0 and a limit of 2, the
  response reports 2 rows and a \<open>filtered_count\<close> of 2, and the number 3 appears only as
  the size of the whole dataset.
\<close>

theorem filter_data_counts_after_limit:
  "fst (filter_data (load_parquet_data example_settings) example_storage fresh gt_0_limit_2) =
     Inr \<lparr>resp_data = [0, 1],
          filtered_count = 2,
          total_records = 3,
          filter_applied = (''fare'', ''gt'', Scalar (PyInt 0), PyNone)\<rparr> \<and>
   apply_filter fares (gt_0_limit_2\<lparr>req_limit := None\<rparr>) = Inr fares \<and>
   index fares = [0, 1, 2]"
proof -
  have sel: "select_rows fares (gt_0_limit_2\<lparr>req_limit := None\<rparr>) = Inr fares"
    using fares_gt_0 by (simp add: select_rows_def Let_def)
  have lim: "apply_filter fares gt_0_limit_2 = Inr (head 2 fares)"
    by (simp add: apply_filter_def fares_gt_0 apply_limit_def) (simp add: gt_0_limit_2_def)
  have all: "apply_filter fares (gt_0_limit_2\<lparr>req_limit := None\<rparr>) = Inr fares"
    by (simp add: apply_filter_def sel apply_limit_def)
  have n: "index fares = [0, 1, 2]" "index (head 2 fares) = [0, 1]"
    by (simp_all add: head_2_fares) (simp add: fares_def)
  show ?thesis
    by (simp add: filter_data_def example_load lim all n)
      (simp add: gt_0_limit_2_def)
qed

text \<open>
  \<open>GET /filter\<close> counts before it cuts: its \<open>total_matches\<close> is the number of
  selected rows, and at most \<open>limit\<close> of them are returned.
\<close>

lemma l568_counts:
  assumes "filter_data_l568 load cfg fs st column operator value limit = (Inr res, st')"
  shows "returned_count res \<le> total_matches res \<and> int (returned_count res) \<le> limit \<and>
         1 \<le> limit \<and> limit \<le> 10000"
  using assms
  by (auto simp: filter_data_l568_def index_head head_count_def
      split: if_splits prod.splits sum.splits)

text \<open>
  Claim C3. The value of an \<open>eq\<close>, \<open>gt\<close>, \<open>lt\<close>, \<open>gte\<close> or \<open>lte\<close> filter is
  converted to the type of the column, and a value that cannot be converted is an error.
  \<open>apply_filter\<close> converts nothing: on the integer column \<open>fare\<close> the number 10
  selects the row with fare 10, the string \<open>10\<close> selects no row, and the string
  \<open>abc\<close> selects no row either, without any error.
\<close>

theorem apply_filter_does_not_coerce:
  "apply_filter fares (eq_fare (Scalar (PyInt 10))) = Inr (df_mask fares [True, False, False]) \<and>
   apply_filter fares (eq_fare (Scalar (PyStr ''10''))) = Inr (df_mask fares [False, False, False]) \<and>
   apply_filter fares (eq_fare (Scalar (PyStr ''abc''))) = Inr (df_mask fares [False, False, False]) \<and>
   index (df_mask fares [False, False, False]) = []"
  by (simp add: apply_filter_def select_rows_def Let_def fares_fare eq_fare_def
      series_compare_def scalar_compare_def invalid_comparison_def compare_def bind_exn_def
      apply_limit_def head_def head_count_def)
    (simp add: df_mask_def fares_def series_pick_def series_take_def)

text \<open>\<open>GET /filter\<close> converts the value, for \<open>eq\<close> and for \<open>in\<close>, and refuses \<open>abc\<close>.\<close>

lemma l568_coerces:
  "select_rows_l568 example_settings fares ''fare'' ''eq'' ''10'' = Inr (df_mask fares [True, False, False])"
  "select_rows_l568 example_settings fares ''fare'' ''eq'' ''abc'' =
     Inl (HTTPException 400 ''Valor invalido para coluna numerica'' (Text ''abc''))"
  "select_rows_l568 example_settings fares ''fare'' ''in'' ''10, 20'' = Inr (df_mask fares [True, True, False])"
  by (simp_all add: select_rows_l568_def fares_fare example_settings_def digits_only_examples
      py_int_def series_compare_def scalar_compare_def compare_def bind_exn_def
      series_isin_def isin_exact_def not_float_def int_matches_def float_value_def strip_def
      isspace_def)

text \<open>
  Claim C4. \<open>contains\<close> on a numeric column is an error, and a missing cell never
  matches. In \<open>apply_filter\<close> the column is turned into strings first: on the integer
  column \<open>fare\<close> the value 1 selects the fares 10 and 12, and on the text column
  \<open>flag\<close> the pattern \<open>n\<close> selects the row whose flag is missing, through the text
  \<open>None\<close>.
\<close>

theorem contains_stringifies_the_column:
  "apply_filter fares (contains_in ''fare'' (Scalar (PyInt 1)))
     = Inr (df_mask fares [True, False, True]) \<and>
   index (df_mask fares [True, False, True]) = [0, 2] \<and>
   apply_filter fares (contains_in ''flag'' (Scalar (PyStr ''n'')))
     = Inr (df_mask fares [True, True, False]) \<and>
   map_of (data (df_mask fares [True, True, False])) ''flag'' = Some (Object [Some ''N'', None])"
proof -
  have num: "select_rows fares (contains_in ''fare'' (Scalar (PyInt 1)))
      = Inr (df_mask fares [True, False, True])"
    by (simp add: select_rows_def Let_def fares_fare contains_in_def astype_str_def py_str_def
        str_contains_def regex_special_def bind_exn_def str_int_examples lower_examples)
  have text_col: "select_rows fares (contains_in ''flag'' (Scalar (PyStr ''n'')))
      = Inr (df_mask fares [True, True, False])"
    by (simp add: select_rows_def Let_def fares_flag contains_in_def astype_str_def py_str_def
        str_contains_def regex_special_def bind_exn_def lower_examples)
  have lim: "req_limit (contains_in c v) = Some 1000" for c v
    by (simp add: contains_in_def)
  have keep: "head 1000 (df_mask fares m) = df_mask fares m" if "length m = 3" for m
  proof -
    from that obtain a b c where "m = [a, b, c]"
      by (cases m; cases "tl m"; cases "tl (tl m)") auto
    then show ?thesis
      by (simp add: head_def head_count_def df_mask_def fares_def series_pick_def series_take_def)
  qed
  show ?thesis
    by (simp add: apply_filter_def num text_col lim apply_limit_def keep)
      (simp add: df_mask_def fares_def series_pick_def)
qed

text \<open>\<open>GET /filter\<close> refuses \<open>contains\<close> on a numeric column and skips missing cells.\<close>

lemma l568_contains_rejects_numbers:
  assumes "map_of (data df) column = Some col" and "\<forall>xs. col \<noteq> Object xs"
  shows "select_rows_l568 cfg df column ''contains'' value =
     Inl (HTTPException 400 ''Operador contains so funciona com colunas de texto'' (Text []))"
  using assms by (cases col) (simp_all add: select_rows_l568_def)

lemma l568_contains_skips_nulls:
  "contains_na_false xs pat = Inr m \<Longrightarrow> i < length xs \<Longrightarrow> xs ! i = None \<Longrightarrow> \<not> m ! i"
  by (auto simp: contains_na_false_def split: if_splits)

text \<open>
  Claim C6. The elements of a comma-delimited \<open>in\<close> value are converted to the type
  of the column. In \<open>apply_filter\<close> they stay strings: on the integer column \<open>fare\<close>
  the list of the numbers 10 and 20 selects two rows, the string \<open>10, 20\<close> none. (The
  order of the values does not matter: \<open>in_filter_order_irrelevant\<close>.)
\<close>

theorem in_filter_does_not_coerce:
  "apply_filter fares (in_fare (PyList [PyInt 10, PyInt 20]))
     = Inr (df_mask fares [True, True, False]) \<and>
   apply_filter fares (in_fare (Scalar (PyStr ''10, 20'')))
     = Inr (df_mask fares [False, False, False]) \<and>
   index (df_mask fares [False, False, False]) = []"
  by (simp add: apply_filter_def select_rows_def Let_def fares_fare in_fare_def
      series_isin_def isin_exact_def not_float_def int_matches_def bind_exn_def strip_def
      isspace_def apply_limit_def head_def head_count_def)
    (simp add: df_mask_def fares_def series_pick_def series_take_def)

text \<open>
  Claim C7. For a \<open>between\<close> filter on an existing column:
  \<^item> without \<open>value2\<close> the filter fails with the error that \<open>between\<close> requires
    \<open>value2\<close>;
  \<^item> on an integer column and on a float column, with any two numeric bounds (integers
    or floats, in any combination that does not make pandas round an integer), and on a
    column of strings with two string bounds, the rows selected are exactly those whose
    cell lies between the bounds, both included, in their order and cut to the limit; a
    missing cell is not selected;
  \<^item> without a limit, on a well-formed frame with distinct row labels, the filter fails
    exactly when \<open>gte\<close> of the lower or \<open>lte\<close> of the upper bound fails, and otherwise
    selects the rows that both of them select.
\<close>

theorem between_filter:
  assumes col: "map_of (data df) (req_column req) = Some col"
    and op: "lower (req_operator req) = ''between''"
  shows
   "(req_value2 req = PyNone \<longrightarrow>
       apply_filter df req = Inl (HTTPException 400 ''Erro no filtro'' BetweenRequiresValue2)) \<and>
    (col = Int64 xs \<and> req_value req = Scalar a \<and> req_value2 req = Scalar b \<and>
     num_of a = Some lo \<and> num_of b = Some hi \<and> rounding_free col a \<and> rounding_free col b \<longrightarrow>
       apply_filter df req =
         Inr (apply_limit (req_limit req)
               (df_mask df (map (\<lambda>x. lo \<le> real_of_int x \<and> real_of_int x \<le> hi) xs)))) \<and>
    (col = Float64 ys \<and> req_value req = Scalar a \<and> req_value2 req = Scalar b \<and>
     num_of a = Some lo \<and> num_of b = Some hi \<and> rounding_free col a \<and> rounding_free col b \<longrightarrow>
       apply_filter df req =
         Inr (apply_limit (req_limit req)
               (df_mask df (map (\<lambda>c. case c of None \<Rightarrow> False | Some x \<Rightarrow> lo \<le> x \<and> x \<le> hi) ys)))) \<and>
    (col = Object zs \<and> req_value req = Scalar (PyStr s) \<and> req_value2 req = Scalar (PyStr t) \<longrightarrow>
       apply_filter df req =
         Inr (apply_limit (req_limit req)
               (df_mask df (map (\<lambda>c. case c of None \<Rightarrow> False | Some z \<Rightarrow> s \<le> z \<and> z \<le> t) zs)))) \<and>
    (req_value2 req \<noteq> PyNone \<and> req_limit req = None \<and> wf_frame df \<and> distinct (index df) \<longrightarrow>
       apply_filter df req =
         (case apply_filter df (req\<lparr>req_operator := ''gte''\<rparr>) of
            Inl e \<Rightarrow> Inl e
          | Inr r1 \<Rightarrow>
              (case apply_filter df (req\<lparr>req_operator := ''lte'', req_value := req_value2 req\<rparr>) of
                 Inl e \<Rightarrow> Inl e
               | Inr r2 \<Rightarrow>
                   Inr (df_mask df (map (\<lambda>i. i \<in> set (index r1) \<and> i \<in> set (index r2)) (index df))))))"
proof (intro conjI impI)
  assume "req_value2 req = PyNone"
  then show "apply_filter df req = Inl (HTTPException 400 ''Erro no filtro'' BetweenRequiresValue2)"
    by (simp add: apply_filter_def select_rows_between [OF col op])
next
  assume a: "col = Int64 xs \<and> req_value req = Scalar a \<and> req_value2 req = Scalar b \<and>
     num_of a = Some lo \<and> num_of b = Some hi \<and> rounding_free col a \<and> rounding_free col b"
  then have "scalar_compare Ge col a = Inr (map (\<lambda>x. lo \<le> real_of_int x) xs)"
    and "scalar_compare Le col b = Inr (map (\<lambda>x. real_of_int x \<le> hi) xs)"
    using compare_Int64_number(1) [of a lo xs] compare_Int64_number(2) [of b hi xs] by auto
  with a show "apply_filter df req =
      Inr (apply_limit (req_limit req)
            (df_mask df (map (\<lambda>x. lo \<le> real_of_int x \<and> real_of_int x \<le> hi) xs)))"
    by (simp add: apply_filter_def select_rows_between [OF col op] series_compare_def
        bind_exn_def map2_conj_same)
next
  assume a: "col = Float64 ys \<and> req_value req = Scalar a \<and> req_value2 req = Scalar b \<and>
     num_of a = Some lo \<and> num_of b = Some hi \<and> rounding_free col a \<and> rounding_free col b"
  then have "scalar_compare Ge col a
        = Inr (map (\<lambda>c. case c of None \<Rightarrow> False | Some x \<Rightarrow> lo \<le> x) ys)"
    and "scalar_compare Le col b
        = Inr (map (\<lambda>c. case c of None \<Rightarrow> False | Some x \<Rightarrow> x \<le> hi) ys)"
    using compare_Float64_number(1) [of a lo ys] compare_Float64_number(2) [of b hi ys] by auto
  with a show "apply_filter df req =
      Inr (apply_limit (req_limit req)
            (df_mask df (map (\<lambda>c. case c of None \<Rightarrow> False | Some x \<Rightarrow> lo \<le> x \<and> x \<le> hi) ys)))"
    by (simp add: apply_filter_def select_rows_between [OF col op] series_compare_def
        bind_exn_def map2_conj_same conj_option_cases)
next
  assume a: "col = Object zs \<and> req_value req = Scalar (PyStr s) \<and> req_value2 req = Scalar (PyStr t)"
  then show "apply_filter df req =
      Inr (apply_limit (req_limit req)
            (df_mask df (map (\<lambda>c. case c of None \<Rightarrow> False | Some z \<Rightarrow> s \<le> z \<and> z \<le> t) zs)))"
    by (simp add: apply_filter_def select_rows_between [OF col op] series_compare_def
        compare_Object_string bind_exn_def map2_conj_same conj_option_cases)
next
  assume a: "req_value2 req \<noteq> PyNone \<and> req_limit req = None \<and> wf_frame df \<and> distinct (index df)"
  let ?g = "req\<lparr>req_operator := ''gte''\<rparr>"
  let ?l = "req\<lparr>req_operator := ''lte'', req_value := req_value2 req\<rparr>"
  have len: "series_len col = length (index df)"
    using a col by (simp add: wf_frame_col)
  have g: "select_rows df ?g =
      bind_exn (series_compare Ge col (req_value req)) (\<lambda>m. Inr (df_mask df m))"
    using col by (simp add: select_rows_gte)
  have l: "select_rows df ?l =
      bind_exn (series_compare Le col (req_value2 req)) (\<lambda>m. Inr (df_mask df m))"
    using col by (simp add: select_rows_lte)
  show "apply_filter df req =
         (case apply_filter df ?g of
            Inl e \<Rightarrow> Inl e
          | Inr r1 \<Rightarrow>
              (case apply_filter df ?l of
                 Inl e \<Rightarrow> Inl e
               | Inr r2 \<Rightarrow>
                   Inr (df_mask df (map (\<lambda>i. i \<in> set (index r1) \<and> i \<in> set (index r2)) (index df)))))"
  proof (cases "series_compare Ge col (req_value req)")
    case (Inl e)
    with a show ?thesis
      by (simp add: apply_filter_def select_rows_between [OF col op] g bind_exn_def)
  next
    case ge: (Inr m1)
    show ?thesis
    proof (cases "series_compare Le col (req_value2 req)")
      case (Inl e)
      with a ge show ?thesis
        by (simp add: apply_filter_def select_rows_between [OF col op] g l bind_exn_def
            apply_limit_def)
    next
      case le: (Inr m2)
      from ge le len have lens: "length m1 = length (index df)" "length m2 = length (index df)"
        by (simp_all add: series_compare_length)
      from a have "distinct (index df)" by simp
      from both_masks [OF this lens]
      show ?thesis
        using a ge le
        by (simp add: apply_filter_def select_rows_between [OF col op] g l bind_exn_def
            apply_limit_def)
    qed
  qed
qed

lemma fares_columns:
  "map_of (data fares) ''trip_distance'' = Some (Float64 [Some 2, Some 4, None])"
  by (simp add: fares_def)

lemma between_in_fields:
  "req_column (between_in c a b) = c" "lower (req_operator (between_in c a b)) = ''between''"
  "req_value (between_in c a b) = a" "req_value2 (between_in c a b) = b"
  "req_limit (between_in c a b) = None"
  by (simp_all add: between_in_def)

theorem between_filter_witness:
  "apply_filter fares (between_10_15\<lparr>req_value2 := PyNone\<rparr>)
     = Inl (HTTPException 400 ''Erro no filtro'' BetweenRequiresValue2) \<and>
   apply_filter fares between_10_15 = Inr (df_mask fares [True, False, True]) \<and>
   index (df_mask fares [True, False, True]) = [0, 2] \<and>
   apply_filter fares (between_in ''fare'' (Scalar (PyFloat (21 / 2))) (Scalar (PyInt 20)))
     = Inr (df_mask fares [False, True, True]) \<and>
   apply_filter fares (between_in ''trip_distance'' (Scalar (PyInt 1)) (Scalar (PyFloat 3)))
     = Inr (df_mask fares [True, False, False]) \<and>
   apply_filter fares (between_in ''flag'' (Scalar (PyStr ''A'')) (Scalar (PyStr ''O'')))
     = Inr (df_mask fares [True, False, False]) \<and>
   apply_filter fares (between_10_15\<lparr>req_operator := ''gte''\<rparr>) = Inr fares \<and>
   apply_filter fares (between_10_15\<lparr>req_operator := ''lte'', req_value := req_value2 between_10_15\<rparr>)
     = Inr (df_mask fares [True, False, True]) \<and>
   apply_filter fares between_10_15
     = Inr (df_mask fares (map (\<lambda>i. i \<in> set (index fares) \<and> i \<in> set (index (df_mask fares [True, False, True])))
             (index fares)))"
proof -
  have c1: "map_of (data fares) (req_column (between_10_15\<lparr>req_value2 := PyNone\<rparr>)) = Some (Int64 [10, 20, 12])"
    and o1: "lower (req_operator (between_10_15\<lparr>req_value2 := PyNone\<rparr>)) = ''between''"
    and c2: "map_of (data fares) (req_column between_10_15) = Some (Int64 [10, 20, 12])"
    and o2: "lower (req_operator between_10_15) = ''between''"
    by (simp_all add: between_10_15_def fares_fare)
  have v: "req_value between_10_15 = Scalar (PyInt 10)" "req_value2 between_10_15 = Scalar (PyInt 15)"
    "req_limit between_10_15 = None" "req_value2 (between_10_15\<lparr>req_value2 := PyNone\<rparr>) = PyNone"
    by (simp_all add: between_10_15_def)
  have ix: "index (df_mask fares [True, False, True]) = [0, 2]"
    by (simp add: fares_def)
  from between_filter [OF c1 o1, of "[]" "PyInt 0" "PyInt 0" 0 0 "[]" "[]" "[]" "[]"] v
  have missing: "apply_filter fares (between_10_15\<lparr>req_value2 := PyNone\<rparr>)
     = Inl (HTTPException 400 ''Erro no filtro'' BetweenRequiresValue2)"
    by blast
  from between_filter [OF c2 o2, of "[10, 20, 12]" "PyInt 10" "PyInt 15" 10 15 "[]" "[]" "[]" "[]"]
    v fares_wf
  have exact: "apply_filter fares between_10_15 = Inr (df_mask fares [True, False, True])"
    and both: "apply_filter fares between_10_15
     = Inr (df_mask fares (map (\<lambda>i. i \<in> set (index fares) \<and> i \<in> set (index (df_mask fares [True, False, True])))
             (index fares)))"
    by (simp_all add: apply_limit_def num_of_def fares_gte_10 fares_lte_15 fares_both_masks)
  have c3: "map_of (data fares)
      (req_column (between_in ''fare'' (Scalar (PyFloat (21 / 2))) (Scalar (PyInt 20))))
      = Some (Int64 [10, 20, 12])"
    by (simp add: between_in_fields fares_fare)
  from between_filter [OF c3 between_in_fields(2),
      of "[10, 20, 12]" "PyFloat (21 / 2)" "PyInt 20" "21 / 2" 20 "[]" "[]" "[]" "[]"]
  have mixed: "apply_filter fares (between_in ''fare'' (Scalar (PyFloat (21 / 2))) (Scalar (PyInt 20)))
     = Inr (df_mask fares [False, True, True])"
    by (simp add: between_in_fields apply_limit_def num_of_def float_exact_def)
  have c4: "map_of (data fares)
      (req_column (between_in ''trip_distance'' (Scalar (PyInt 1)) (Scalar (PyFloat 3))))
      = Some (Float64 [Some 2, Some 4, None])"
    by (simp add: between_in_fields fares_columns)
  from between_filter [OF c4 between_in_fields(2),
      of "[]" "PyInt 1" "PyFloat 3" 1 3 "[Some 2, Some 4, None]" "[]" "[]" "[]"]
  have floats: "apply_filter fares (between_in ''trip_distance'' (Scalar (PyInt 1)) (Scalar (PyFloat 3)))
     = Inr (df_mask fares [True, False, False])"
    by (simp add: between_in_fields apply_limit_def num_of_def float_exact_def)
  have c5: "map_of (data fares)
      (req_column (between_in ''flag'' (Scalar (PyStr ''A'')) (Scalar (PyStr ''O''))))
      = Some (Object [Some ''N'', None, Some ''Y''])"
    by (simp add: between_in_fields fares_flag)
  from between_filter [OF c5 between_in_fields(2),
      of "[]" "PyInt 0" "PyInt 0" 0 0 "[]" "[Some ''N'', None, Some ''Y'']" "''A''" "''O''"]
  have strings: "apply_filter fares (between_in ''flag'' (Scalar (PyStr ''A'')) (Scalar (PyStr ''O'')))
     = Inr (df_mask fares [True, False, False])"
    by (simp add: between_in_fields apply_limit_def)
  from missing exact ix mixed floats strings both fares_gte_10 fares_lte_15 show ?thesis by simp
qed

end
